theory Spec2Isabelle
  imports Main "HOL-Library.Word" "HOL-Library.Char_ord" "HOL-Library.List_Lexorder"
begin

section \<open>The client-side proxy core of Ice (cpp/src/Ice/Proxy.cpp)\<close>

text \<open>
  The development embeds the member functions of the proxy class of
  \<^verbatim>\<open>cpp/src/Ice/Proxy.cpp\<close> as functions over an explicit store. Proxies and
  References are heap objects that the C++ code handles through reference-counted
  pointers, and several operations promise to return \<^emph>\<open>the same\<close> handle, so both
  kinds of object live in a store and are named by their address. An address is the
  index of the object in the store, allocation appends, and a null pointer is
  \<open>None\<close>.

  Names follow the source. Isabelle identifiers cannot start with an underscore, so
  \<^verbatim>\<open>__handleException\<close> is \<open>handleException\<close>, \<^verbatim>\<open>__begin_ice_isA\<close> is
  \<open>begin_ice_isA\<close>, and so on. Where the two language mappings of the file
  (\<^verbatim>\<open>ICE_CPP11_MAPPING\<close> defined or not) have different code for one function, the
  C++11 variant carries the suffix \<open>_cpp11\<close>.
\<close>

subsection \<open>Data model\<close>

type_synonym addr = nat
type_synonym byte = "8 word"

text \<open>\<^verbatim>\<open>Ice::Identity\<close>: a pair of strings; \<^verbatim>\<open>==\<close> compares both members.\<close>

record Identity =
  name :: string
  category :: string

text \<open>\<^verbatim>\<open>Reference::Mode\<close>, with the five enumerators the proxy tests for.\<close>

datatype Mode = ModeTwoway | ModeOneway | ModeBatchOneway | ModeDatagram | ModeBatchDatagram

text \<open>
  \<^verbatim>\<open>Ice::OperationMode\<close>. The source names \<open>Nonmutating\<close> and \<open>Idempotent\<close>; the
  remaining enumerator is the mutating mode \<open>Normal\<close>.
\<close>

datatype OperationMode = Normal | Nonmutating | Idempotent

datatype EndpointSelectionType = Random | Ordered

type_synonym Context = "(string \<times> string) list"
type_synonym Endpoint = nat

text \<open>
  The Reference class is declared outside this file. Its attributes are those of the
  data-model table of the specification; each field is named after the accessor the
  proxy calls (\<^verbatim>\<open>_reference->getSecure()\<close> is \<open>getSecure r\<close>). Ice's \<^verbatim>\<open>Int\<close> is a
  32-bit signed integer; the proxy only compares such values with constants and with
  each other, never computes with them, so they are modelled as \<open>int\<close>.
  \<open>getTimeout\<close> is the connection timeout that \<^verbatim>\<open>ice_timeout\<close> sets.
\<close>

record Reference =
  getIdentity :: Identity
  getFacet :: string
  getMode :: Mode
  getSecure :: bool
  getPreferSecure :: bool
  getEncoding :: "byte \<times> byte"
  getCompress :: "bool option"
  getContext :: Context
  getEndpoints :: "Endpoint list"
  getAdapterId :: string
  getLocatorInfo :: "addr option"
  getRouterInfo :: "addr option"
  getCacheConnection :: bool
  getCollocationOptimized :: bool
  getEndpointSelection :: EndpointSelectionType
  getLocatorCacheTimeout :: int
  getInvocationTimeout :: int
  getTimeout :: int
  getConnectionId :: string

text \<open>
  The proxy object: the members \<^verbatim>\<open>_reference\<close>, \<^verbatim>\<open>_requestHandler\<close> and
  \<^verbatim>\<open>_batchRequestQueue\<close>, all of them pointers that are null in a proxy that has
  just been constructed.
\<close>

record Proxy =
  reference :: "addr option"
  requestHandler :: "addr option"
  batchRequestQueue :: "addr option"

record Heap =
  references :: "Reference list"
  proxies :: "Proxy list"

text \<open>
  The exceptions the proxy raises, catches or tests for. \<open>LocalException\<close> collects
  the classes derived from \<^verbatim>\<open>Ice::LocalException\<close>, so that the
  \<^verbatim>\<open>dynamic_cast<const LocalException*>\<close> of the source is a test of the outer
  constructor. \<open>UserException\<close> carries the type id that \<^verbatim>\<open>ice_id()\<close> returns.
  \<open>AssertionFailure\<close> is not a C++ exception: it stands for the abort of a failed
  \<^verbatim>\<open>assert\<close>, which no \<^verbatim>\<open>catch\<close> clause of the model intercepts.
\<close>

datatype LocalException =
    CloseConnectionException
  | ObjectNotExistException
  | FacetNotExistException
  | CommunicatorDestroyedException
  | ConnectTimeoutException
  | TwowayOnlyException string
  | IllegalIdentityException
  | UnknownUserException string
  | OtherLocalException string

datatype Exception =
    Local LocalException
  | UserException string
  | IllegalArgumentException string
  | SystemException string
  | AssertionFailure

text \<open>Dereferencing a proxy handle and its \<^verbatim>\<open>_reference\<close> member.\<close>

definition proxyAt :: "Heap \<Rightarrow> addr \<Rightarrow> Proxy" where
  "proxyAt h p = proxies h ! p"

definition referenceOf :: "Heap \<Rightarrow> addr \<Rightarrow> addr" where
  "referenceOf h p = the (reference (proxyAt h p))"

definition ref :: "Heap \<Rightarrow> addr \<Rightarrow> Reference" where
  "ref h p = references h ! referenceOf h p"

text \<open>
  A handle is usable when it names a proxy of the store that has been set up with a
  Reference of the store. Dereferencing anything else is undefined behaviour in C++,
  so the theorems about member functions assume it of \<open>this\<close>.
\<close>

definition validProxy :: "Heap \<Rightarrow> addr \<Rightarrow> bool" where
  "validProxy h p =
     (p < length (proxies h) \<and>
      (case reference (proxyAt h p) of
         None \<Rightarrow> False
       | Some r \<Rightarrow> r < length (references h)))"

subsection \<open>Identity comparators\<close>

text \<open>\<^verbatim>\<open>ice_getIdentity\<close> and \<^verbatim>\<open>ice_getFacet\<close>.\<close>

definition ice_getIdentity :: "Heap \<Rightarrow> addr \<Rightarrow> Identity" where
  "ice_getIdentity h this = getIdentity (ref h this)"

definition ice_getFacet :: "Heap \<Rightarrow> addr \<Rightarrow> string" where
  "ice_getFacet h this = getFacet (ref h this)"

text \<open>
  The four free comparison functions. \<^verbatim>\<open>operator<\<close> of the generated struct
  \<open>Identity\<close> is declared outside this file, so it is the parameter \<open>idLess\<close>;
  \<^verbatim>\<open>std::string\<close>'s \<^verbatim>\<open><\<close> is the lexicographic order on bytes.
\<close>

definition proxyIdentityLess ::
  "(Identity \<Rightarrow> Identity \<Rightarrow> bool) \<Rightarrow> Heap \<Rightarrow> addr option \<Rightarrow> addr option \<Rightarrow> bool" where
  "proxyIdentityLess idLess h lhs rhs =
     (case (lhs, rhs) of
        (None, None) \<Rightarrow> False
      | (None, Some r) \<Rightarrow> True
      | (Some l, None) \<Rightarrow> False
      | (Some l, Some r) \<Rightarrow> idLess (ice_getIdentity h l) (ice_getIdentity h r))"

definition proxyIdentityEqual :: "Heap \<Rightarrow> addr option \<Rightarrow> addr option \<Rightarrow> bool" where
  "proxyIdentityEqual h lhs rhs =
     (case (lhs, rhs) of
        (None, None) \<Rightarrow> True
      | (None, Some r) \<Rightarrow> False
      | (Some l, None) \<Rightarrow> False
      | (Some l, Some r) \<Rightarrow> ice_getIdentity h l = ice_getIdentity h r)"

definition proxyIdentityAndFacetLess ::
  "(Identity \<Rightarrow> Identity \<Rightarrow> bool) \<Rightarrow> Heap \<Rightarrow> addr option \<Rightarrow> addr option \<Rightarrow> bool" where
  "proxyIdentityAndFacetLess idLess h lhs rhs =
     (case (lhs, rhs) of
        (None, None) \<Rightarrow> False
      | (None, Some r) \<Rightarrow> True
      | (Some l, None) \<Rightarrow> False
      | (Some l, Some r) \<Rightarrow>
          (let lhsIdentity = ice_getIdentity h l;
               rhsIdentity = ice_getIdentity h r
           in if idLess lhsIdentity rhsIdentity then True
              else if idLess rhsIdentity lhsIdentity then False
              else (let lhsFacet = ice_getFacet h l;
                        rhsFacet = ice_getFacet h r
                    in if lhsFacet < rhsFacet then True
                       else if rhsFacet < lhsFacet then False
                       else False)))"

definition proxyIdentityAndFacetEqual :: "Heap \<Rightarrow> addr option \<Rightarrow> addr option \<Rightarrow> bool" where
  "proxyIdentityAndFacetEqual h lhs rhs =
     (case (lhs, rhs) of
        (None, None) \<Rightarrow> True
      | (None, Some r) \<Rightarrow> False
      | (Some l, None) \<Rightarrow> False
      | (Some l, Some r) \<Rightarrow>
          (let lhsIdentity = ice_getIdentity h l;
               rhsIdentity = ice_getIdentity h r
           in if lhsIdentity = rhsIdentity
              then (let lhsFacet = ice_getFacet h l;
                        rhsFacet = ice_getFacet h r
                    in if lhsFacet = rhsFacet then True else False)
              else False))"

subsection \<open>The mutators of the Reference\<close>

text \<open>
  Modelled from the spec: the common shape of the mutators \<^verbatim>\<open>changeX\<close> of class
  Reference, whose code is outside this file. A mutator compares the new value with
  the current value of its attribute; if they are equal it returns the current
  Reference itself, otherwise a new Reference that shares all other attributes.
  \<open>change h r same new\<close> takes the outcome \<open>same\<close> of the comparison and the
  Reference \<open>new\<close> to create. The range checks that the specification also
  ascribes to the mutators are the ones every caller in this file has made before
  the call, so they are not repeated here.
\<close>

definition change :: "Heap \<Rightarrow> addr \<Rightarrow> bool \<Rightarrow> Reference \<Rightarrow> Heap \<times> addr" where
  "change h r same new =
     (if same then (h, r)
      else (h\<lparr>references := references h @ [new]\<rparr>, length (references h)))"

text \<open>Modelled from the spec: \<^verbatim>\<open>Reference::changeIdentity\<close>.\<close>

definition changeIdentity :: "Heap \<Rightarrow> addr \<Rightarrow> Identity \<Rightarrow> Heap \<times> addr" where
  "changeIdentity h r v =
     change h r (v = getIdentity (references h ! r))
       ((references h ! r)\<lparr>getIdentity := v\<rparr>)"

text \<open>Modelled from the spec: \<^verbatim>\<open>Reference::changeContext\<close>.\<close>

definition changeContext :: "Heap \<Rightarrow> addr \<Rightarrow> Context \<Rightarrow> Heap \<times> addr" where
  "changeContext h r v =
     change h r (v = getContext (references h ! r))
       ((references h ! r)\<lparr>getContext := v\<rparr>)"

text \<open>Modelled from the spec: \<^verbatim>\<open>Reference::changeFacet\<close>.\<close>

definition changeFacet :: "Heap \<Rightarrow> addr \<Rightarrow> string \<Rightarrow> Heap \<times> addr" where
  "changeFacet h r v =
     change h r (v = getFacet (references h ! r))
       ((references h ! r)\<lparr>getFacet := v\<rparr>)"

text \<open>
  Modelled from the spec: \<^verbatim>\<open>Reference::changeAdapterId\<close>; changing the adapter id
  clears the endpoints.
\<close>

definition changeAdapterId :: "Heap \<Rightarrow> addr \<Rightarrow> string \<Rightarrow> Heap \<times> addr" where
  "changeAdapterId h r v =
     change h r (v = getAdapterId (references h ! r))
       ((references h ! r)\<lparr>getAdapterId := v, getEndpoints := []\<rparr>)"

text \<open>
  Modelled from the spec: \<^verbatim>\<open>Reference::changeEndpoints\<close>; changing the endpoints
  clears the adapter id.
\<close>

definition changeEndpoints :: "Heap \<Rightarrow> addr \<Rightarrow> Endpoint list \<Rightarrow> Heap \<times> addr" where
  "changeEndpoints h r v =
     change h r (v = getEndpoints (references h ! r))
       ((references h ! r)\<lparr>getEndpoints := v, getAdapterId := []\<rparr>)"

text \<open>Modelled from the spec: \<^verbatim>\<open>Reference::changeLocatorCacheTimeout\<close>.\<close>

definition changeLocatorCacheTimeout :: "Heap \<Rightarrow> addr \<Rightarrow> int \<Rightarrow> Heap \<times> addr" where
  "changeLocatorCacheTimeout h r v =
     change h r (v = getLocatorCacheTimeout (references h ! r))
       ((references h ! r)\<lparr>getLocatorCacheTimeout := v\<rparr>)"

text \<open>Modelled from the spec: \<^verbatim>\<open>Reference::changeCacheConnection\<close>.\<close>

definition changeCacheConnection :: "Heap \<Rightarrow> addr \<Rightarrow> bool \<Rightarrow> Heap \<times> addr" where
  "changeCacheConnection h r v =
     change h r (v = getCacheConnection (references h ! r))
       ((references h ! r)\<lparr>getCacheConnection := v\<rparr>)"

text \<open>Modelled from the spec: \<^verbatim>\<open>Reference::changeEndpointSelection\<close>.\<close>

definition changeEndpointSelection ::
  "Heap \<Rightarrow> addr \<Rightarrow> EndpointSelectionType \<Rightarrow> Heap \<times> addr" where
  "changeEndpointSelection h r v =
     change h r (v = getEndpointSelection (references h ! r))
       ((references h ! r)\<lparr>getEndpointSelection := v\<rparr>)"

text \<open>Modelled from the spec: \<^verbatim>\<open>Reference::changeSecure\<close>.\<close>

definition changeSecure :: "Heap \<Rightarrow> addr \<Rightarrow> bool \<Rightarrow> Heap \<times> addr" where
  "changeSecure h r v =
     change h r (v = getSecure (references h ! r))
       ((references h ! r)\<lparr>getSecure := v\<rparr>)"

text \<open>Modelled from the spec: \<^verbatim>\<open>Reference::changeEncoding\<close>.\<close>

definition changeEncoding :: "Heap \<Rightarrow> addr \<Rightarrow> byte \<times> byte \<Rightarrow> Heap \<times> addr" where
  "changeEncoding h r v =
     change h r (v = getEncoding (references h ! r))
       ((references h ! r)\<lparr>getEncoding := v\<rparr>)"

text \<open>Modelled from the spec: \<^verbatim>\<open>Reference::changePreferSecure\<close>.\<close>

definition changePreferSecure :: "Heap \<Rightarrow> addr \<Rightarrow> bool \<Rightarrow> Heap \<times> addr" where
  "changePreferSecure h r v =
     change h r (v = getPreferSecure (references h ! r))
       ((references h ! r)\<lparr>getPreferSecure := v\<rparr>)"

text \<open>
  Modelled from the spec: \<^verbatim>\<open>Reference::changeRouter\<close>, which stores the resolved
  info handle (possibly null). The resolution of a router proxy to its info object
  belongs to the router subsystem; the info handle is identified with the handle of
  the router proxy it was resolved from.
\<close>

definition changeRouter :: "Heap \<Rightarrow> addr \<Rightarrow> addr option \<Rightarrow> Heap \<times> addr" where
  "changeRouter h r v =
     change h r (v = getRouterInfo (references h ! r))
       ((references h ! r)\<lparr>getRouterInfo := v\<rparr>)"

text \<open>
  Modelled from the spec: \<^verbatim>\<open>Reference::changeLocator\<close>, which stores the resolved
  info handle (possibly null), identified with the handle of the locator proxy.
\<close>

definition changeLocator :: "Heap \<Rightarrow> addr \<Rightarrow> addr option \<Rightarrow> Heap \<times> addr" where
  "changeLocator h r v =
     change h r (v = getLocatorInfo (references h ! r))
       ((references h ! r)\<lparr>getLocatorInfo := v\<rparr>)"

text \<open>Modelled from the spec: \<^verbatim>\<open>Reference::changeCollocationOptimized\<close>.\<close>

definition changeCollocationOptimized :: "Heap \<Rightarrow> addr \<Rightarrow> bool \<Rightarrow> Heap \<times> addr" where
  "changeCollocationOptimized h r v =
     change h r (v = getCollocationOptimized (references h ! r))
       ((references h ! r)\<lparr>getCollocationOptimized := v\<rparr>)"

text \<open>Modelled from the spec: \<^verbatim>\<open>Reference::changeInvocationTimeout\<close>.\<close>

definition changeInvocationTimeout :: "Heap \<Rightarrow> addr \<Rightarrow> int \<Rightarrow> Heap \<times> addr" where
  "changeInvocationTimeout h r v =
     change h r (v = getInvocationTimeout (references h ! r))
       ((references h ! r)\<lparr>getInvocationTimeout := v\<rparr>)"

text \<open>Modelled from the spec: \<^verbatim>\<open>Reference::changeMode\<close>.\<close>

definition changeMode :: "Heap \<Rightarrow> addr \<Rightarrow> Mode \<Rightarrow> Heap \<times> addr" where
  "changeMode h r v =
     change h r (v = getMode (references h ! r))
       ((references h ! r)\<lparr>getMode := v\<rparr>)"

text \<open>
  Modelled from the spec: \<^verbatim>\<open>Reference::changeCompress\<close>; the attribute is an
  optional override, which the mutator sets.
\<close>

definition changeCompress :: "Heap \<Rightarrow> addr \<Rightarrow> bool \<Rightarrow> Heap \<times> addr" where
  "changeCompress h r v =
     change h r (getCompress (references h ! r) = Some v)
       ((references h ! r)\<lparr>getCompress := Some v\<rparr>)"

text \<open>Modelled from the spec: \<^verbatim>\<open>Reference::changeTimeout\<close>.\<close>

definition changeTimeout :: "Heap \<Rightarrow> addr \<Rightarrow> int \<Rightarrow> Heap \<times> addr" where
  "changeTimeout h r v =
     change h r (v = getTimeout (references h ! r))
       ((references h ! r)\<lparr>getTimeout := v\<rparr>)"

text \<open>Modelled from the spec: \<^verbatim>\<open>Reference::changeConnectionId\<close>.\<close>

definition changeConnectionId :: "Heap \<Rightarrow> addr \<Rightarrow> string \<Rightarrow> Heap \<times> addr" where
  "changeConnectionId h r v =
     change h r (v = getConnectionId (references h ! r))
       ((references h ! r)\<lparr>getConnectionId := v\<rparr>)"

subsection \<open>Construction of proxies\<close>

text \<open>
  \<^verbatim>\<open>__newInstance\<close> (and the \<^verbatim>\<open>new IceProxy::Ice::Object\<close> and
  \<^verbatim>\<open>createProxy<ObjectPrx>()\<close> of \<^verbatim>\<open>ice_identity\<close> and \<^verbatim>\<open>ice_facet\<close>, which
  differ from it only in the dynamic type of the object): a new proxy object with
  null members, at a new address.
\<close>

definition newInstance :: "Heap \<Rightarrow> Heap \<times> addr" where
  "newInstance h =
     (h\<lparr>proxies := proxies h @
           [\<lparr>reference = None, requestHandler = None, batchRequestQueue = None\<rparr>]\<rparr>,
      length (proxies h))"

text \<open>
  \<^verbatim>\<open>setup\<close> (named \<open>setupProxy\<close>, as the source's name is an Isabelle keyword),
  with its two assertions. They are modelled as compiled in; a build with
  \<^verbatim>\<open>NDEBUG\<close> has no check, and behaves the same wherever they hold.
\<close>

definition setupProxy :: "Heap \<Rightarrow> addr \<Rightarrow> addr \<Rightarrow> Exception + Heap" where
  "setupProxy h this r =
     (if reference (proxyAt h this) \<noteq> None then Inl AssertionFailure
      else if requestHandler (proxyAt h this) \<noteq> None then Inl AssertionFailure
      else Inr (h\<lparr>proxies := (proxies h)[this := (proxyAt h this)\<lparr>reference := Some r\<rparr>]\<rparr>))"

text \<open>
  The closing statements of every derivation that does not share:
  \<^verbatim>\<open>proxy = __newInstance(); proxy->setup(ref); return proxy;\<close> where \<open>ref\<close> is the
  Reference a mutator has returned, together with the store it left.
\<close>

definition newProxy :: "Heap \<times> addr \<Rightarrow> Exception + Heap \<times> addr" where
  "newProxy hr =
     (case newInstance (fst hr) of
        (h1, proxy) \<Rightarrow>
          (case setupProxy h1 proxy (snd hr) of
             Inl e \<Rightarrow> Inl e
           | Inr h2 \<Rightarrow> Inr (h2, proxy)))"

text \<open>
  The text that \<^verbatim>\<open>ostringstream\<close> writes for an \<^verbatim>\<open>Int\<close>: decimal digits, with a
  leading minus sign for a negative value.
\<close>

fun show_nat :: "nat \<Rightarrow> string" where
  "show_nat n =
     (if n < 10 then [char_of (48 + n)]
      else show_nat (n div 10) @ [char_of (48 + n mod 10)])"

declare show_nat.simps [simp del]

definition show_int :: "int \<Rightarrow> string" where
  "show_int i = (if i < 0 then CHR ''-'' # show_nat (nat (- i)) else show_nat (nat i))"

subsection \<open>Derivations\<close>

text \<open>
  Every derivation returns either an exception or the store it leaves together with
  the handle it returns. \<^verbatim>\<open>return CONST_POINTER_CAST_OBJECT_PRX\<close> returns \<open>this\<close>
  and leaves the store as it is.
\<close>

definition ice_identity :: "Heap \<Rightarrow> addr \<Rightarrow> Identity \<Rightarrow> Exception + Heap \<times> addr" where
  "ice_identity h this newIdentity =
     (if name newIdentity = [] then Inl (Local IllegalIdentityException)
      else if newIdentity = getIdentity (ref h this) then Inr (h, this)
      else newProxy (changeIdentity h (referenceOf h this) newIdentity))"

definition ice_getContext :: "Heap \<Rightarrow> addr \<Rightarrow> Context" where
  "ice_getContext h this = getContext (ref h this)"

definition ice_context :: "Heap \<Rightarrow> addr \<Rightarrow> Context \<Rightarrow> Exception + Heap \<times> addr" where
  "ice_context h this newContext =
     newProxy (changeContext h (referenceOf h this) newContext)"

definition ice_facet :: "Heap \<Rightarrow> addr \<Rightarrow> string \<Rightarrow> Exception + Heap \<times> addr" where
  "ice_facet h this newFacet =
     (if newFacet = getFacet (ref h this) then Inr (h, this)
      else newProxy (changeFacet h (referenceOf h this) newFacet))"

definition ice_adapterId :: "Heap \<Rightarrow> addr \<Rightarrow> string \<Rightarrow> Exception + Heap \<times> addr" where
  "ice_adapterId h this newAdapterId =
     (if newAdapterId = getAdapterId (ref h this) then Inr (h, this)
      else newProxy (changeAdapterId h (referenceOf h this) newAdapterId))"

text \<open>
  \<^verbatim>\<open>ice_endpoints\<close> first casts every element of its argument to the internal
  endpoint class; endpoints are opaque here and the cast is the identity.
\<close>

definition ice_endpoints :: "Heap \<Rightarrow> addr \<Rightarrow> Endpoint list \<Rightarrow> Exception + Heap \<times> addr" where
  "ice_endpoints h this newEndpoints =
     (if newEndpoints = getEndpoints (ref h this) then Inr (h, this)
      else newProxy (changeEndpoints h (referenceOf h this) newEndpoints))"

definition ice_locatorCacheTimeout :: "Heap \<Rightarrow> addr \<Rightarrow> int \<Rightarrow> Exception + Heap \<times> addr" where
  "ice_locatorCacheTimeout h this newTimeout =
     (if newTimeout < - 1
      then Inl (IllegalArgumentException
                  (''invalid value passed to ice_locatorCacheTimeout: '' @ show_int newTimeout))
      else if newTimeout = getLocatorCacheTimeout (ref h this) then Inr (h, this)
      else newProxy (changeLocatorCacheTimeout h (referenceOf h this) newTimeout))"

definition ice_isConnectionCached :: "Heap \<Rightarrow> addr \<Rightarrow> bool" where
  "ice_isConnectionCached h this = getCacheConnection (ref h this)"

definition ice_connectionCached :: "Heap \<Rightarrow> addr \<Rightarrow> bool \<Rightarrow> Exception + Heap \<times> addr" where
  "ice_connectionCached h this newCache =
     (if newCache = getCacheConnection (ref h this) then Inr (h, this)
      else newProxy (changeCacheConnection h (referenceOf h this) newCache))"

definition ice_endpointSelection :: "Heap \<Rightarrow> addr \<Rightarrow> EndpointSelectionType \<Rightarrow> Exception + Heap \<times> addr" where
  "ice_endpointSelection h this newType =
     (if newType = getEndpointSelection (ref h this) then Inr (h, this)
      else newProxy (changeEndpointSelection h (referenceOf h this) newType))"

definition ice_isSecure :: "Heap \<Rightarrow> addr \<Rightarrow> bool" where
  "ice_isSecure h this = getSecure (ref h this)"

definition ice_secure :: "Heap \<Rightarrow> addr \<Rightarrow> bool \<Rightarrow> Exception + Heap \<times> addr" where
  "ice_secure h this b =
     (if b = getSecure (ref h this) then Inr (h, this)
      else newProxy (changeSecure h (referenceOf h this) b))"

definition ice_encodingVersion :: "Heap \<Rightarrow> addr \<Rightarrow> byte \<times> byte \<Rightarrow> Exception + Heap \<times> addr" where
  "ice_encodingVersion h this encoding =
     (if encoding = getEncoding (ref h this) then Inr (h, this)
      else newProxy (changeEncoding h (referenceOf h this) encoding))"

definition ice_preferSecure :: "Heap \<Rightarrow> addr \<Rightarrow> bool \<Rightarrow> Exception + Heap \<times> addr" where
  "ice_preferSecure h this b =
     (if b = getPreferSecure (ref h this) then Inr (h, this)
      else newProxy (changePreferSecure h (referenceOf h this) b))"

text \<open>
  The derivations that leave the comparison to the Reference test the handle the
  mutator returns against \<^verbatim>\<open>_reference\<close>. The mutators above return a new
  Reference only for a value unequal to the current one, so it makes no difference
  here whether \<^verbatim>\<open>==\<close> on Reference handles compares addresses or contents.
\<close>

definition ice_router :: "Heap \<Rightarrow> addr \<Rightarrow> addr option \<Rightarrow> Exception + Heap \<times> addr" where
  "ice_router h this router =
     (case changeRouter h (referenceOf h this) router of
        (h1, r) \<Rightarrow>
          if r = referenceOf h this then Inr (h1, this)
          else newProxy (h1, r))"

definition ice_locator :: "Heap \<Rightarrow> addr \<Rightarrow> addr option \<Rightarrow> Exception + Heap \<times> addr" where
  "ice_locator h this locator =
     (case changeLocator h (referenceOf h this) locator of
        (h1, r) \<Rightarrow>
          if r = referenceOf h this then Inr (h1, this)
          else newProxy (h1, r))"

definition ice_collocationOptimized :: "Heap \<Rightarrow> addr \<Rightarrow> bool \<Rightarrow> Exception + Heap \<times> addr" where
  "ice_collocationOptimized h this b =
     (if b = getCollocationOptimized (ref h this) then Inr (h, this)
      else newProxy (changeCollocationOptimized h (referenceOf h this) b))"

definition ice_invocationTimeout :: "Heap \<Rightarrow> addr \<Rightarrow> int \<Rightarrow> Exception + Heap \<times> addr" where
  "ice_invocationTimeout h this newTimeout =
     (if newTimeout < 1 \<and> newTimeout \<noteq> - 1 \<and> newTimeout \<noteq> - 2
      then Inl (IllegalArgumentException
                  (''invalid value passed to ice_invocationTimeout: '' @ show_int newTimeout))
      else if newTimeout = getInvocationTimeout (ref h this) then Inr (h, this)
      else newProxy (changeInvocationTimeout h (referenceOf h this) newTimeout))"

definition ice_twoway :: "Heap \<Rightarrow> addr \<Rightarrow> Exception + Heap \<times> addr" where
  "ice_twoway h this =
     (if getMode (ref h this) = ModeTwoway then Inr (h, this)
      else newProxy (changeMode h (referenceOf h this) ModeTwoway))"

definition ice_isTwoway :: "Heap \<Rightarrow> addr \<Rightarrow> bool" where
  "ice_isTwoway h this = (getMode (ref h this) = ModeTwoway)"

definition ice_oneway :: "Heap \<Rightarrow> addr \<Rightarrow> Exception + Heap \<times> addr" where
  "ice_oneway h this =
     (if getMode (ref h this) = ModeOneway then Inr (h, this)
      else newProxy (changeMode h (referenceOf h this) ModeOneway))"

definition ice_isOneway :: "Heap \<Rightarrow> addr \<Rightarrow> bool" where
  "ice_isOneway h this = (getMode (ref h this) = ModeOneway)"

definition ice_batchOneway :: "Heap \<Rightarrow> addr \<Rightarrow> Exception + Heap \<times> addr" where
  "ice_batchOneway h this =
     (if getMode (ref h this) = ModeBatchOneway then Inr (h, this)
      else newProxy (changeMode h (referenceOf h this) ModeBatchOneway))"

definition ice_isBatchOneway :: "Heap \<Rightarrow> addr \<Rightarrow> bool" where
  "ice_isBatchOneway h this = (getMode (ref h this) = ModeBatchOneway)"

definition ice_datagram :: "Heap \<Rightarrow> addr \<Rightarrow> Exception + Heap \<times> addr" where
  "ice_datagram h this =
     (if getMode (ref h this) = ModeDatagram then Inr (h, this)
      else newProxy (changeMode h (referenceOf h this) ModeDatagram))"

definition ice_isDatagram :: "Heap \<Rightarrow> addr \<Rightarrow> bool" where
  "ice_isDatagram h this = (getMode (ref h this) = ModeDatagram)"

definition ice_batchDatagram :: "Heap \<Rightarrow> addr \<Rightarrow> Exception + Heap \<times> addr" where
  "ice_batchDatagram h this =
     (if getMode (ref h this) = ModeBatchDatagram then Inr (h, this)
      else newProxy (changeMode h (referenceOf h this) ModeBatchDatagram))"

definition ice_isBatchDatagram :: "Heap \<Rightarrow> addr \<Rightarrow> bool" where
  "ice_isBatchDatagram h this = (getMode (ref h this) = ModeBatchDatagram)"

definition ice_compress :: "Heap \<Rightarrow> addr \<Rightarrow> bool \<Rightarrow> Exception + Heap \<times> addr" where
  "ice_compress h this b =
     (case changeCompress h (referenceOf h this) b of
        (h1, r) \<Rightarrow>
          if r = referenceOf h this then Inr (h1, this)
          else newProxy (h1, r))"

definition ice_timeout :: "Heap \<Rightarrow> addr \<Rightarrow> int \<Rightarrow> Exception + Heap \<times> addr" where
  "ice_timeout h this t =
     (if t < 1 \<and> t \<noteq> - 1
      then Inl (IllegalArgumentException
                  (''invalid value passed to ice_timeout: '' @ show_int t))
      else (case changeTimeout h (referenceOf h this) t of
              (h1, r) \<Rightarrow>
                if r = referenceOf h this then Inr (h1, this)
                else newProxy (h1, r)))"

definition ice_connectionId :: "Heap \<Rightarrow> addr \<Rightarrow> string \<Rightarrow> Exception + Heap \<times> addr" where
  "ice_connectionId h this newId =
     (case changeConnectionId h (referenceOf h this) newId of
        (h1, r) \<Rightarrow>
          if r = referenceOf h this then Inr (h1, this)
          else newProxy (h1, r))"

subsection \<open>Accessors\<close>

text \<open>
  The remaining accessors of the proxy. \<^verbatim>\<open>ice_getRouter\<close> and
  \<^verbatim>\<open>ice_getLocator\<close> answer null for a null info handle and the proxy of the
  info object otherwise.
\<close>

definition ice_getAdapterId :: "Heap \<Rightarrow> addr \<Rightarrow> string" where
  "ice_getAdapterId h this = getAdapterId (ref h this)"

definition ice_getEndpoints :: "Heap \<Rightarrow> addr \<Rightarrow> Endpoint list" where
  "ice_getEndpoints h this = getEndpoints (ref h this)"

definition ice_getLocatorCacheTimeout :: "Heap \<Rightarrow> addr \<Rightarrow> int" where
  "ice_getLocatorCacheTimeout h this = getLocatorCacheTimeout (ref h this)"

definition ice_getEndpointSelection :: "Heap \<Rightarrow> addr \<Rightarrow> EndpointSelectionType" where
  "ice_getEndpointSelection h this = getEndpointSelection (ref h this)"

definition ice_getEncodingVersion :: "Heap \<Rightarrow> addr \<Rightarrow> byte \<times> byte" where
  "ice_getEncodingVersion h this = getEncoding (ref h this)"

definition ice_isPreferSecure :: "Heap \<Rightarrow> addr \<Rightarrow> bool" where
  "ice_isPreferSecure h this = getPreferSecure (ref h this)"

definition ice_getRouter :: "Heap \<Rightarrow> addr \<Rightarrow> addr option" where
  "ice_getRouter h this =
     (case getRouterInfo (ref h this) of None \<Rightarrow> None | Some ri \<Rightarrow> Some ri)"

definition ice_getLocator :: "Heap \<Rightarrow> addr \<Rightarrow> addr option" where
  "ice_getLocator h this =
     (case getLocatorInfo (ref h this) of None \<Rightarrow> None | Some ri \<Rightarrow> Some ri)"

definition ice_isCollocationOptimized :: "Heap \<Rightarrow> addr \<Rightarrow> bool" where
  "ice_isCollocationOptimized h this = getCollocationOptimized (ref h this)"

definition ice_getInvocationTimeout :: "Heap \<Rightarrow> addr \<Rightarrow> int" where
  "ice_getInvocationTimeout h this = getInvocationTimeout (ref h this)"

definition ice_getConnectionId :: "Heap \<Rightarrow> addr \<Rightarrow> string" where
  "ice_getConnectionId h this = getConnectionId (ref h this)"

subsection \<open>The cached request handler\<close>

text \<open>
  Request handlers are objects of the connection layer, known here by their handle
  only. \<^verbatim>\<open>RequestHandler::update\<close> is a virtual function of theirs, declared
  outside this file: it is the parameter \<open>update\<close>, called with the handler it is
  invoked on and its two arguments. The member functions lock \<^verbatim>\<open>_mutex\<close> around
  every access to the slot, so each is one atomic transition of the proxy's state.
\<close>

text \<open>The assignment \<^verbatim>\<open>_requestHandler = v\<close> in the proxy at \<open>this\<close>.\<close>

definition storeRequestHandler :: "Heap \<Rightarrow> addr \<Rightarrow> addr option \<Rightarrow> Heap" where
  "storeRequestHandler h this v =
     h\<lparr>proxies := (proxies h)[this := (proxyAt h this)\<lparr>requestHandler := v\<rparr>]\<rparr>"

definition setRequestHandler :: "Heap \<Rightarrow> addr \<Rightarrow> addr option \<Rightarrow> Heap \<times> addr option" where
  "setRequestHandler h this handler =
     (if getCacheConnection (ref h this)
      then (let h1 = (if requestHandler (proxyAt h this) = None
                      then storeRequestHandler h this handler
                      else h)
            in (h1, requestHandler (proxyAt h1 this)))
      else (h, handler))"

definition updateRequestHandler ::
  "(addr \<Rightarrow> addr option \<Rightarrow> addr option \<Rightarrow> addr option) \<Rightarrow>
   Heap \<Rightarrow> addr \<Rightarrow> addr option \<Rightarrow> addr option \<Rightarrow> Heap" where
  "updateRequestHandler update h this previous handler =
     (if getCacheConnection (ref h this) \<and> previous \<noteq> None
      then (case requestHandler (proxyAt h this) of
              None \<Rightarrow> h
            | Some current \<Rightarrow>
                if Some current \<noteq> handler
                then storeRequestHandler h this (update current previous handler)
                else h)
      else h)"

subsection \<open>Failure classification\<close>

text \<open>The three \<^verbatim>\<open>dynamic_cast\<close>s of \<^verbatim>\<open>__handleException\<close>.\<close>

definition asLocalException :: "Exception \<Rightarrow> LocalException option" where
  "asLocalException ex = (case ex of Local e \<Rightarrow> Some e | _ \<Rightarrow> None)"

definition isCloseConnectionException :: "Exception \<Rightarrow> bool" where
  "isCloseConnectionException ex = (ex = Local CloseConnectionException)"

definition isObjectNotExistException :: "Exception \<Rightarrow> bool" where
  "isObjectNotExistException ex = (ex = Local ObjectNotExistException)"

text \<open>
  \<^verbatim>\<open>__handleException\<close>. The retry policy of the proxy factory,
  \<^verbatim>\<open>checkRetryAfterException\<close>, is a parameter: given the local exception, the
  Reference and the counter it either raises an exception or returns the delay and
  the counter it leaves in \<^verbatim>\<open>cnt\<close>. The function returns the store as the
  initial \<^verbatim>\<open>__updateRequestHandler(handler, 0)\<close> leaves it, and either the
  exception it raises or the delay with the new value of \<^verbatim>\<open>cnt\<close>.
\<close>

definition handleException ::
  "(addr \<Rightarrow> addr option \<Rightarrow> addr option \<Rightarrow> addr option) \<Rightarrow>
   (LocalException \<Rightarrow> addr \<Rightarrow> int \<Rightarrow> Exception + int \<times> int) \<Rightarrow>
   Heap \<Rightarrow> addr \<Rightarrow> Exception \<Rightarrow> addr option \<Rightarrow> OperationMode \<Rightarrow> bool \<Rightarrow> int \<Rightarrow>
   Heap \<times> (Exception + int \<times> int)" where
  "handleException update checkRetryAfterException h this ex handler mode sent cnt =
     (let h1 = updateRequestHandler update h this handler None;
          localEx = asLocalException ex
      in if localEx \<noteq> None \<and>
            (\<not> sent \<or> mode = Nonmutating \<or> mode = Idempotent \<or>
             isCloseConnectionException ex \<or> isObjectNotExistException ex)
         then (case checkRetryAfterException (the localEx) (referenceOf h1 this) cnt of
                 Inl e \<Rightarrow>
                   if e = Local CommunicatorDestroyedException then (h1, Inl ex)
                   else (h1, Inl e)
               | Inr r \<Rightarrow> (h1, Inr r))
         else (h1, Inl ex))"

subsection \<open>Built-in operations\<close>

definition ice_ping_name :: string where "ice_ping_name = ''ice_ping''"
definition ice_ids_name :: string where "ice_ids_name = ''ice_ids''"
definition ice_id_name :: string where "ice_id_name = ''ice_id''"
definition ice_isA_name :: string where "ice_isA_name = ''ice_isA''"
definition ice_invoke_name :: string where "ice_invoke_name = ''ice_invoke''"

text \<open>
  What a built-in operation hands to the invocation object: the operation name, the
  operation mode, the context and the marshalled parameters.
\<close>

datatype Params = EmptyParams | StringParam string | ParamEncaps "byte list"

record Invocation =
  operation :: string
  operationMode :: OperationMode
  invocationContext :: Context
  params :: Params

text \<open>
  \<^verbatim>\<open>AsyncResult\<close> belongs to the invocation front-end and is declared outside this
  file. A result the proxy is asked to complete is modelled by what each member
  function the proxy calls on it does:
  \<^item> \<open>check\<close>: \<^verbatim>\<open>AsyncResult::__check(result, this, operation)\<close>, the exception it
    raises if any;
  \<^item> \<open>wait\<close>: \<^verbatim>\<open>__wait()\<close>, which raises the exception the invocation failed with
    or returns whether the reply is a success (\<open>True\<close>) or carries a user exception;
  \<^item> \<open>throwUserException\<close>: the exception that \<^verbatim>\<open>__throwUserException()\<close> raises;
  \<^item> \<open>readBool\<close>, \<open>readString\<close>, \<open>readStringSeq\<close>: the bracket
    \<^verbatim>\<open>__startReadParams(); read(ret); __endReadParams()\<close> at each result type;
  \<^item> \<open>readEmptyParams\<close> and \<open>readParamEncaps\<close>: the member functions of these names.
\<close>

record AsyncResult =
  check :: "addr \<Rightarrow> string \<Rightarrow> Exception option"
  wait :: "Exception + bool"
  throwUserException :: Exception
  readBool :: "Exception + bool"
  readString :: "Exception + string"
  readStringSeq :: "Exception + string list"
  readEmptyParams :: "Exception option"
  readParamEncaps :: "Exception + byte list"

text \<open>\<^verbatim>\<open>__checkTwowayOnly\<close>, in the C++98 mapping and in the C++11 mapping.\<close>

definition checkTwowayOnly :: "Heap \<Rightarrow> addr \<Rightarrow> string \<Rightarrow> bool \<Rightarrow> Exception + unit" where
  "checkTwowayOnly h this opName sync =
     (if \<not> ice_isTwoway h this
      then (if sync then Inl (Local (TwowayOnlyException opName))
            else Inl (IllegalArgumentException
                        (''`'' @ opName @ ''' can only be called with a twoway proxy'')))
      else Inr ())"

definition checkTwowayOnly_cpp11 :: "Heap \<Rightarrow> addr \<Rightarrow> string \<Rightarrow> Exception + unit" where
  "checkTwowayOnly_cpp11 h this opName =
     (if \<not> ice_isTwoway h this
      then Inl (IllegalArgumentException
                  (''`'' @ opName @ ''' can only be called with a twoway proxy''))
      else Inr ())"

text \<open>
  The C++98 \<^verbatim>\<open>__begin_ice_\<close> functions. After the mode check they create the
  invocation object with the \<open>sync\<close> flag, prepare it, write the parameters and
  invoke; an exception in these steps is stored in the result by \<^verbatim>\<open>abort\<close> and the
  result is returned all the same. These steps belong to the invocation front-end
  and are the parameter \<open>outgoing\<close>, from the flag and the invocation to the result.
\<close>

definition begin_ice_isA ::
  "(bool \<Rightarrow> Invocation \<Rightarrow> AsyncResult) \<Rightarrow> Heap \<Rightarrow> addr \<Rightarrow> string \<Rightarrow> Context \<Rightarrow> bool \<Rightarrow>
   Exception + AsyncResult" where
  "begin_ice_isA outgoing h this typeId ctx sync =
     (case checkTwowayOnly h this ice_isA_name sync of
        Inl e \<Rightarrow> Inl e
      | Inr u \<Rightarrow>
          Inr (outgoing sync
                 \<lparr>operation = ice_isA_name, operationMode = Nonmutating,
                  invocationContext = ctx, params = StringParam typeId\<rparr>))"

definition begin_ice_ping ::
  "(bool \<Rightarrow> Invocation \<Rightarrow> AsyncResult) \<Rightarrow> Heap \<Rightarrow> addr \<Rightarrow> Context \<Rightarrow> bool \<Rightarrow>
   Exception + AsyncResult" where
  "begin_ice_ping outgoing h this ctx sync =
     Inr (outgoing sync
            \<lparr>operation = ice_ping_name, operationMode = Nonmutating,
             invocationContext = ctx, params = EmptyParams\<rparr>)"

definition begin_ice_ids ::
  "(bool \<Rightarrow> Invocation \<Rightarrow> AsyncResult) \<Rightarrow> Heap \<Rightarrow> addr \<Rightarrow> Context \<Rightarrow> bool \<Rightarrow>
   Exception + AsyncResult" where
  "begin_ice_ids outgoing h this ctx sync =
     (case checkTwowayOnly h this ice_ids_name sync of
        Inl e \<Rightarrow> Inl e
      | Inr u \<Rightarrow>
          Inr (outgoing sync
                 \<lparr>operation = ice_ids_name, operationMode = Nonmutating,
                  invocationContext = ctx, params = EmptyParams\<rparr>))"

definition begin_ice_id ::
  "(bool \<Rightarrow> Invocation \<Rightarrow> AsyncResult) \<Rightarrow> Heap \<Rightarrow> addr \<Rightarrow> Context \<Rightarrow> bool \<Rightarrow>
   Exception + AsyncResult" where
  "begin_ice_id outgoing h this ctx sync =
     (case checkTwowayOnly h this ice_id_name sync of
        Inl e \<Rightarrow> Inl e
      | Inr u \<Rightarrow>
          Inr (outgoing sync
                 \<lparr>operation = ice_id_name, operationMode = Nonmutating,
                  invocationContext = ctx, params = EmptyParams\<rparr>))"

text \<open>
  The C++11 functions \<^verbatim>\<open>__ice_isA\<close>, \<^verbatim>\<open>__ice_ping\<close>, \<^verbatim>\<open>__ice_ids\<close> and
  \<^verbatim>\<open>__ice_id\<close>. They serve the synchronous and the asynchronous entry points
  alike and take no flag that tells the two apart. After the mode check they call
  \<^verbatim>\<open>outAsync->invoke\<close>; the model returns the invocation they pass to it.
\<close>

definition ice_isA_cpp11 :: "Heap \<Rightarrow> addr \<Rightarrow> string \<Rightarrow> Context \<Rightarrow> Exception + Invocation" where
  "ice_isA_cpp11 h this typeId ctx =
     (case checkTwowayOnly_cpp11 h this ice_isA_name of
        Inl e \<Rightarrow> Inl e
      | Inr u \<Rightarrow>
          Inr \<lparr>operation = ice_isA_name, operationMode = Nonmutating,
               invocationContext = ctx, params = StringParam typeId\<rparr>)"

definition ice_ping_cpp11 :: "Heap \<Rightarrow> addr \<Rightarrow> Context \<Rightarrow> Exception + Invocation" where
  "ice_ping_cpp11 h this ctx =
     Inr \<lparr>operation = ice_ping_name, operationMode = Nonmutating,
          invocationContext = ctx, params = EmptyParams\<rparr>"

definition ice_ids_cpp11 :: "Heap \<Rightarrow> addr \<Rightarrow> Context \<Rightarrow> Exception + Invocation" where
  "ice_ids_cpp11 h this ctx =
     (case checkTwowayOnly_cpp11 h this ice_ids_name of
        Inl e \<Rightarrow> Inl e
      | Inr u \<Rightarrow>
          Inr \<lparr>operation = ice_ids_name, operationMode = Nonmutating,
               invocationContext = ctx, params = EmptyParams\<rparr>)"

definition ice_id_cpp11 :: "Heap \<Rightarrow> addr \<Rightarrow> Context \<Rightarrow> Exception + Invocation" where
  "ice_id_cpp11 h this ctx =
     (case checkTwowayOnly_cpp11 h this ice_id_name of
        Inl e \<Rightarrow> Inl e
      | Inr u \<Rightarrow>
          Inr \<lparr>operation = ice_id_name, operationMode = Nonmutating,
               invocationContext = ctx, params = EmptyParams\<rparr>)"

text \<open>
  The handler \<^verbatim>\<open>catch(const UserException& ex)\<close> around
  \<^verbatim>\<open>__throwUserException()\<close>: a user exception is replaced by an
  \<^verbatim>\<open>UnknownUserException\<close> with its type id, anything else passes.
\<close>

definition rethrowUserException :: "AsyncResult \<Rightarrow> Exception" where
  "rethrowUserException result =
     (case throwUserException result of
        UserException typeId \<Rightarrow> Local (UnknownUserException typeId)
      | e \<Rightarrow> e)"

definition end_ice_isA :: "Heap \<Rightarrow> addr \<Rightarrow> AsyncResult \<Rightarrow> Exception + bool" where
  "end_ice_isA h this result =
     (case check result this ice_isA_name of
        Some e \<Rightarrow> Inl e
      | None \<Rightarrow>
          (case wait result of
             Inl e \<Rightarrow> Inl e
           | Inr ok \<Rightarrow>
               if \<not> ok then Inl (rethrowUserException result)
               else readBool result))"

definition end_ice_ids :: "Heap \<Rightarrow> addr \<Rightarrow> AsyncResult \<Rightarrow> Exception + string list" where
  "end_ice_ids h this result =
     (case check result this ice_ids_name of
        Some e \<Rightarrow> Inl e
      | None \<Rightarrow>
          (case wait result of
             Inl e \<Rightarrow> Inl e
           | Inr ok \<Rightarrow>
               if \<not> ok then Inl (rethrowUserException result)
               else readStringSeq result))"

definition end_ice_id :: "Heap \<Rightarrow> addr \<Rightarrow> AsyncResult \<Rightarrow> Exception + string" where
  "end_ice_id h this result =
     (case check result this ice_id_name of
        Some e \<Rightarrow> Inl e
      | None \<Rightarrow>
          (case wait result of
             Inl e \<Rightarrow> Inl e
           | Inr ok \<Rightarrow>
               if \<not> ok then Inl (rethrowUserException result)
               else readString result))"

text \<open>
  \<^verbatim>\<open>__end\<close> (named \<open>endOperation\<close>, as \<^verbatim>\<open>end\<close> is an Isabelle keyword), the
  completion of an operation with an empty reply, and \<^verbatim>\<open>end_ice_ping\<close>, which
  calls it.
\<close>

definition endOperation :: "Heap \<Rightarrow> addr \<Rightarrow> AsyncResult \<Rightarrow> string \<Rightarrow> Exception + unit" where
  "endOperation h this result opName =
     (case check result this opName of
        Some e \<Rightarrow> Inl e
      | None \<Rightarrow>
          (case wait result of
             Inl e \<Rightarrow> Inl e
           | Inr ok \<Rightarrow>
               if getMode (ref h this) = ModeTwoway
               then (if \<not> ok then Inl (rethrowUserException result)
                     else (case readEmptyParams result of
                             Some e \<Rightarrow> Inl e
                           | None \<Rightarrow> Inr ()))
               else Inr ()))"

definition end_ice_ping :: "Heap \<Rightarrow> addr \<Rightarrow> AsyncResult \<Rightarrow> Exception + unit" where
  "end_ice_ping h this result = endOperation h this result ice_ping_name"

text \<open>
  \<^verbatim>\<open>end_ice_invoke\<close> takes the caller's vector \<open>outEncaps\<close> by reference and
  returns the flag; the model returns the flag and the contents of the vector on
  return. \<^verbatim>\<open>___end_ice_invoke\<close> (named \<open>end_ice_invoke_range\<close>) does the same with
  a pair of pointers in place of the vector; a pair of pointers is modelled by the
  bytes it delimits.
\<close>

definition end_ice_invoke ::
  "Heap \<Rightarrow> addr \<Rightarrow> byte list \<Rightarrow> AsyncResult \<Rightarrow> Exception + bool \<times> byte list" where
  "end_ice_invoke h this outEncaps result =
     (case check result this ice_invoke_name of
        Some e \<Rightarrow> Inl e
      | None \<Rightarrow>
          (case wait result of
             Inl e \<Rightarrow> Inl e
           | Inr ok \<Rightarrow>
               if getMode (ref h this) = ModeTwoway
               then (case readParamEncaps result of
                       Inl e \<Rightarrow> Inl e
                     | Inr v \<Rightarrow> Inr (ok, v))
               else Inr (ok, outEncaps)))"

definition end_ice_invoke_range ::
  "Heap \<Rightarrow> addr \<Rightarrow> byte list \<Rightarrow> AsyncResult \<Rightarrow> Exception + bool \<times> byte list" where
  "end_ice_invoke_range h this outEncaps result =
     (case check result this ice_invoke_name of
        Some e \<Rightarrow> Inl e
      | None \<Rightarrow>
          (case wait result of
             Inl e \<Rightarrow> Inl e
           | Inr ok \<Rightarrow>
               if getMode (ref h this) = ModeTwoway
               then (case readParamEncaps result of
                       Inl e \<Rightarrow> Inl e
                     | Inr v \<Rightarrow> Inr (ok, v))
               else Inr (ok, outEncaps)))"

subsection \<open>Checked cast\<close>

text \<open>
  \<^verbatim>\<open>checkedCastImpl\<close>. The synchronous \<^verbatim>\<open>ice_isA\<close> it calls is defined in the
  header and runs a whole remote invocation; it is the parameter \<open>ice_isA\<close>, which
  returns the store it leaves and the answer or the exception. \<open>ndebug\<close> tells
  whether \<^verbatim>\<open>NDEBUG\<close> is defined: if it is not, the function asserts, when the
  answer is negative, that the type id is not \<^verbatim>\<open>::Ice::Object\<close>.
\<close>

definition checkedCastImpl ::
  "bool \<Rightarrow> (Heap \<Rightarrow> addr \<Rightarrow> string \<Rightarrow> Context \<Rightarrow> Heap \<times> (Exception + bool)) \<Rightarrow>
   Heap \<Rightarrow> addr option \<Rightarrow> string \<Rightarrow> string \<Rightarrow> Context \<Rightarrow>
   Heap \<times> (Exception + addr option)" where
  "checkedCastImpl ndebug ice_isA h b f typeId context =
     (case b of
        None \<Rightarrow> (h, Inr None)
      | Some b' \<Rightarrow>
          (case ice_facet h b' f of
             Inl e \<Rightarrow> (h, Inl e)
           | Inr (h1, bb) \<Rightarrow>
               (case ice_isA h1 bb typeId context of
                  (h2, Inr True) \<Rightarrow> (h2, Inr (Some bb))
                | (h2, Inr False) \<Rightarrow>
                    if \<not> ndebug \<and> typeId = ''::Ice::Object''
                    then (h2, Inl AssertionFailure)
                    else (h2, Inr None)
                | (h2, Inl e) \<Rightarrow>
                    if e = Local FacetNotExistException then (h2, Inr None)
                    else (h2, Inl e))))"

subsection \<open>Validity of References and a concrete store\<close>

text \<open>
  Modelled from the spec: the invariants of the data model that bear on the
  derivations. The name of the identity is never empty, the locator cache timeout is
  at least \<open>-1\<close>, the invocation timeout is \<open>-2\<close>, \<open>-1\<close> or at least \<open>1\<close>, and
  the connection timeout is \<open>-1\<close> or at least \<open>1\<close>. The Reference class, which
  maintains them, is outside this file.
\<close>

definition validReference :: "Reference \<Rightarrow> bool" where
  "validReference r =
     (name (getIdentity r) \<noteq> [] \<and>
      - 1 \<le> getLocatorCacheTimeout r \<and>
      (getInvocationTimeout r = - 2 \<or> getInvocationTimeout r = - 1 \<or>
       1 \<le> getInvocationTimeout r) \<and>
      (getTimeout r = - 1 \<or> 1 \<le> getTimeout r))"

text \<open>
  A small store on which the theorems below are instantiated: a two-way Reference
  with identity \<open>acc\<close> and connection caching, its one-way variant, and a proxy on
  each.
\<close>

definition exampleReference :: Reference where
  "exampleReference =
     \<lparr>getIdentity = \<lparr>name = ''acc'', category = []\<rparr>,
      getFacet = [],
      getMode = ModeTwoway,
      getSecure = False,
      getPreferSecure = False,
      getEncoding = (1, 1),
      getCompress = Some False,
      getContext = [(''user'', ''alice'')],
      getEndpoints = [7],
      getAdapterId = [],
      getLocatorInfo = None,
      getRouterInfo = None,
      getCacheConnection = True,
      getCollocationOptimized = True,
      getEndpointSelection = Random,
      getLocatorCacheTimeout = - 1,
      getInvocationTimeout = - 1,
      getTimeout = - 1,
      getConnectionId = []\<rparr>"

definition exampleHeap :: Heap where
  "exampleHeap =
     \<lparr>references = [exampleReference, exampleReference\<lparr>getMode := ModeOneway\<rparr>],
      proxies = [\<lparr>reference = Some 0, requestHandler = None, batchRequestQueue = None\<rparr>,
                 \<lparr>reference = Some 1, requestHandler = None, batchRequestQueue = None\<rparr>]\<rparr>"

text \<open>
  Modelled from the spec: a request handler's \<^verbatim>\<open>update(previous, new)\<close>, which
  answers \<open>new\<close> if the handler it is called on is \<open>previous\<close> and itself otherwise.
  It instantiates the parameter \<open>update\<close> in concrete instances.
\<close>

definition exampleUpdate :: "addr \<Rightarrow> addr option \<Rightarrow> addr option \<Rightarrow> addr option" where
  "exampleUpdate current previous handler =
     (if previous = Some current then handler else Some current)"

text \<open>
  Modelled from the spec: a retry policy \<^verbatim>\<open>check_retry(e, reference, cnt)\<close> that
  increments the counter and returns a zero delay for the first three attempts and
  raises the exception again afterwards. It instantiates the parameter
  \<open>checkRetryAfterException\<close> in concrete instances.
\<close>

definition examplePolicy :: "LocalException \<Rightarrow> addr \<Rightarrow> int \<Rightarrow> Exception + int \<times> int" where
  "examplePolicy e r cnt = (if cnt < 3 then Inr (0, cnt + 1) else Inl (Local e))"

text \<open>
  The store a derivation leaves when it does not share: the Reference \<open>new\<close> that
  the mutator has created is appended to the References, and the new proxy, set up
  with it, to the proxies.
\<close>

definition derivedStore :: "Heap \<Rightarrow> Reference \<Rightarrow> Heap" where
  "derivedStore h new =
     h\<lparr>references := references h @ [new],
       proxies := proxies h @
         [\<lparr>reference = Some (length (references h)), requestHandler = None,
           batchRequestQueue = None\<rparr>]\<rparr>"

text \<open>
  An invocation front-end and a completed result for concrete instances: the result
  passes \<^verbatim>\<open>__check\<close> and reports a successful reply.
\<close>

definition exampleResult :: AsyncResult where
  "exampleResult =
     \<lparr>check = (\<lambda>prx opName. None),
      wait = Inr True,
      throwUserException = UserException ''::Test::Error'',
      readBool = Inr True,
      readString = Inr ''::Ice::Object'',
      readStringSeq = Inr [''::Ice::Object''],
      readEmptyParams = None,
      readParamEncaps = Inr [1, 2, 3]\<rparr>"

definition exampleOutgoing :: "bool \<Rightarrow> Invocation \<Rightarrow> AsyncResult" where
  "exampleOutgoing sync invocation = exampleResult"

text \<open>
  A store for the handler cache: two proxies on the caching Reference, the first
  with an empty slot and the second with handler \<open>5\<close> cached, and a third proxy on
  a Reference without connection caching.
\<close>

definition cachedHeap :: Heap where
  "cachedHeap =
     \<lparr>references = [exampleReference, exampleReference\<lparr>getCacheConnection := False\<rparr>],
      proxies = [\<lparr>reference = Some 0, requestHandler = None, batchRequestQueue = None\<rparr>,
                 \<lparr>reference = Some 0, requestHandler = Some 5, batchRequestQueue = None\<rparr>,
                 \<lparr>reference = Some 1, requestHandler = None, batchRequestQueue = None\<rparr>]\<rparr>"

section \<open>Properties\<close>

subsection \<open>Basic facts about the store\<close>

lemma newProxy_eq:
  "newProxy (h, r) =
     Inr (h\<lparr>proxies := proxies h @
              [\<lparr>reference = Some r, requestHandler = None, batchRequestQueue = None\<rparr>]\<rparr>,
          length (proxies h))"
  by (simp add: newProxy_def newInstance_def setupProxy_def proxyAt_def)

lemma change_same:
  "change h r True new = (h, r)"
  by (simp add: change_def)

lemma change_other:
  "change h r False new =
     (h\<lparr>references := references h @ [new]\<rparr>, length (references h))"
  by (simp add: change_def)

lemma validProxy_example: "validProxy exampleHeap 0 \<and> validProxy exampleHeap (Suc 0)"
  by (simp add: validProxy_def exampleHeap_def proxyAt_def)

lemma ref_example:
  "ref exampleHeap 0 = exampleReference \<and>
   ref exampleHeap (Suc 0) = exampleReference\<lparr>getMode := ModeOneway\<rparr>"
  by (simp add: ref_def referenceOf_def exampleHeap_def proxyAt_def)

lemma validReference_example: "validReference exampleReference"
  by (simp add: validReference_def exampleReference_def)

lemma newProxy_change_other:
  "newProxy (change h r False new) = Inr (derivedStore h new, length (proxies h))"
  by (simp add: change_other newProxy_eq derivedStore_def)

lemma derived_store:
  "validProxy (derivedStore h new) (length (proxies h)) \<and>
   \<not> validProxy h (length (proxies h)) \<and>
   ref (derivedStore h new) (length (proxies h)) = new \<and>
   requestHandler (proxyAt (derivedStore h new) (length (proxies h))) = None \<and>
   (\<forall>q. validProxy h q \<longrightarrow>
      validProxy (derivedStore h new) q \<and>
      proxyAt (derivedStore h new) q = proxyAt h q \<and>
      ref (derivedStore h new) q = ref h q)"
  by (auto simp add: derivedStore_def validProxy_def proxyAt_def ref_def referenceOf_def
      nth_append split: option.splits)

subsection \<open>Identity comparators\<close>

text \<open>
  Claim C8. For all proxy handles \<open>p1\<close> and \<open>p2\<close>, null or not:
  \<^verbatim>\<open>proxyIdentityEqual\<close> holds exactly if both are null or both are non-null
  with equal identities; \<^verbatim>\<open>proxyIdentityAndFacetEqual\<close> requires equal facets in
  addition; in both less-than comparators a null handle is less than every non-null
  handle, no non-null handle is less than null, and of two null handles neither is
  less than the other while the equality comparators hold of them. This is so
  whatever the order on identities is.
\<close>

theorem proxy_identity_comparators:
  "(proxyIdentityEqual h p1 p2 \<longleftrightarrow>
      (p1 = None \<and> p2 = None) \<or>
      (\<exists>a b. p1 = Some a \<and> p2 = Some b \<and> ice_getIdentity h a = ice_getIdentity h b)) \<and>
   (proxyIdentityAndFacetEqual h p1 p2 \<longleftrightarrow>
      (p1 = None \<and> p2 = None) \<or>
      (\<exists>a b. p1 = Some a \<and> p2 = Some b \<and> ice_getIdentity h a = ice_getIdentity h b \<and>
             ice_getFacet h a = ice_getFacet h b)) \<and>
   proxyIdentityLess idLess h None (Some q) \<and>
   proxyIdentityAndFacetLess idLess h None (Some q) \<and>
   \<not> proxyIdentityLess idLess h (Some q) None \<and>
   \<not> proxyIdentityAndFacetLess idLess h (Some q) None \<and>
   \<not> proxyIdentityLess idLess h None None \<and>
   \<not> proxyIdentityAndFacetLess idLess h None None \<and>
   proxyIdentityEqual h None None \<and>
   proxyIdentityAndFacetEqual h None None"
  by (cases p1; cases p2)
     (simp_all add: proxyIdentityEqual_def proxyIdentityAndFacetEqual_def
        proxyIdentityLess_def proxyIdentityAndFacetLess_def Let_def)

text \<open>
  Instances: the two proxies of the example store have the same identity and facet
  and differ in their mode only; a proxy derived for the facet \<open>admin\<close> has the
  identity of the proxy it was derived from and another facet.
\<close>

theorem proxy_identity_comparators_witness:
  "proxyIdentityEqual exampleHeap (Some 0) (Some 1) \<and>
   proxyIdentityAndFacetEqual exampleHeap (Some 0) (Some 1) \<and>
   proxyIdentityEqual (derivedStore exampleHeap (exampleReference\<lparr>getFacet := ''admin''\<rparr>))
     (Some 0) (Some 2) \<and>
   \<not> proxyIdentityAndFacetEqual
       (derivedStore exampleHeap (exampleReference\<lparr>getFacet := ''admin''\<rparr>)) (Some 0) (Some 2) \<and>
   \<not> proxyIdentityEqual exampleHeap None (Some 1) \<and>
   proxyIdentityLess (\<lambda>a b. name a < name b) exampleHeap None (Some 1)"
proof -
  let ?h = "derivedStore exampleHeap (exampleReference\<lparr>getFacet := ''admin''\<rparr>)"
  have l: "length (proxies exampleHeap) = 2"
    by (simp add: exampleHeap_def)
  have r: "ref ?h 2 = exampleReference\<lparr>getFacet := ''admin''\<rparr>" "ref ?h 0 = exampleReference"
    using derived_store [of exampleHeap "exampleReference\<lparr>getFacet := ''admin''\<rparr>"]
      validProxy_example ref_example by (simp_all add: l)
  have g: "getIdentity (ref ?h 2) = getIdentity (ref ?h 0)"
    "getFacet (ref ?h 2) \<noteq> getFacet (ref ?h 0)"
    unfolding r by (simp_all add: exampleReference_def)
  show ?thesis
    using g proxy_identity_comparators [of exampleHeap "Some 0" "Some 1" "\<lambda>a b. name a < name b" 1]
      proxy_identity_comparators [of exampleHeap None "Some 1" "\<lambda>a b. name a < name b" 1]
      proxy_identity_comparators [of ?h "Some 0" "Some 2" "\<lambda>a b. name a < name b" 1]
    by (simp add: ice_getIdentity_def ice_getFacet_def ref_example)
qed

subsection \<open>Derivation of a proxy with another identity\<close>

text \<open>
  Claim C5. On a usable proxy, \<^verbatim>\<open>ice_identity\<close> raises
  \<^verbatim>\<open>IllegalIdentityException\<close> when the name of the argument is empty. When the
  name is not empty and the argument equals the current identity, it returns the
  handle it was called on and leaves the store as it is. Otherwise it returns a
  handle that names no proxy of the store before the call and differs from the one
  it was called on; the proxy at that handle is usable, has an empty handler cache,
  and its Reference is the current Reference with the identity replaced by the
  argument; every proxy that was usable before is unchanged.
\<close>

theorem ice_identity_cases:
  assumes "validProxy h this"
  shows "(name newIdentity = [] \<longrightarrow>
            ice_identity h this newIdentity = Inl (Local IllegalIdentityException)) \<and>
         (name newIdentity \<noteq> [] \<and> newIdentity = ice_getIdentity h this \<longrightarrow>
            ice_identity h this newIdentity = Inr (h, this)) \<and>
         (name newIdentity \<noteq> [] \<and> newIdentity \<noteq> ice_getIdentity h this \<longrightarrow>
            (\<exists>h' p. ice_identity h this newIdentity = Inr (h', p) \<and>
               p \<noteq> this \<and> \<not> validProxy h p \<and> validProxy h' p \<and>
               ref h' p = (ref h this)\<lparr>getIdentity := newIdentity\<rparr> \<and>
               requestHandler (proxyAt h' p) = None \<and>
               (\<forall>q. validProxy h q \<longrightarrow>
                  validProxy h' q \<and> proxyAt h' q = proxyAt h q \<and> ref h' q = ref h q)))"
proof (intro conjI impI)
  assume "name newIdentity = []"
  then show "ice_identity h this newIdentity = Inl (Local IllegalIdentityException)"
    by (simp add: ice_identity_def)
next
  assume "name newIdentity \<noteq> [] \<and> newIdentity = ice_getIdentity h this"
  then show "ice_identity h this newIdentity = Inr (h, this)"
    by (auto simp add: ice_identity_def ice_getIdentity_def)
next
  assume a: "name newIdentity \<noteq> [] \<and> newIdentity \<noteq> ice_getIdentity h this"
  let ?new = "(ref h this)\<lparr>getIdentity := newIdentity\<rparr>"
  let ?h' = "derivedStore h ?new"
  have eq: "ice_identity h this newIdentity = Inr (?h', length (proxies h))"
    using a
    by (simp add: ice_identity_def ice_getIdentity_def changeIdentity_def ref_def
        newProxy_change_other)
  have "this < length (proxies h)"
    using assms by (simp add: validProxy_def)
  then have "length (proxies h) \<noteq> this" by simp
  then show "\<exists>h' p. ice_identity h this newIdentity = Inr (h', p) \<and>
               p \<noteq> this \<and> \<not> validProxy h p \<and> validProxy h' p \<and>
               ref h' p = (ref h this)\<lparr>getIdentity := newIdentity\<rparr> \<and>
               requestHandler (proxyAt h' p) = None \<and>
               (\<forall>q. validProxy h q \<longrightarrow>
                  validProxy h' q \<and> proxyAt h' q = proxyAt h q \<and> ref h' q = ref h q)"
    using eq derived_store [of h ?new] by blast
qed

text \<open>The three cases on the first proxy of the example store, whose identity is \<open>acc\<close>.\<close>

theorem ice_identity_cases_witness:
  "validProxy exampleHeap 0 \<and>
   ice_identity exampleHeap 0 \<lparr>name = [], category = ''c''\<rparr> =
     Inl (Local IllegalIdentityException) \<and>
   ice_identity exampleHeap 0 \<lparr>name = ''acc'', category = []\<rparr> = Inr (exampleHeap, 0) \<and>
   (\<exists>h' p. ice_identity exampleHeap 0 \<lparr>name = ''other'', category = []\<rparr> = Inr (h', p) \<and>
      p \<noteq> 0 \<and> \<not> validProxy exampleHeap p \<and> validProxy h' p \<and>
      ref h' p = exampleReference\<lparr>getIdentity := \<lparr>name = ''other'', category = []\<rparr>\<rparr> \<and>
      requestHandler (proxyAt h' p) = None)"
proof -
  have v: "validProxy exampleHeap 0"
    using validProxy_example by simp
  have i: "ice_getIdentity exampleHeap 0 = \<lparr>name = ''acc'', category = []\<rparr>"
    by (simp add: ice_getIdentity_def ref_example exampleReference_def)
  show ?thesis
    using v i ice_identity_cases [OF v, of "\<lparr>name = [], category = ''c''\<rparr>"]
      ice_identity_cases [OF v, of "\<lparr>name = ''acc'', category = []\<rparr>"]
      ice_identity_cases [OF v, of "\<lparr>name = ''other'', category = []\<rparr>"]
    by (simp add: ref_example) blast
qed

subsection \<open>Validation of timeouts\<close>

lemma show_int_small:
  "show_int (- 2) = ''-2'' \<and> show_int 0 = ''0''"
  by code_simp

lemma derivation_succeeds:
  "\<exists>h' p. newProxy (change h r same new) = Inr (h', p)"
  by (cases same) (simp_all add: change_def newProxy_eq)

text \<open>
  Claim C6. For every argument \<open>t\<close>, on every proxy: \<^verbatim>\<open>ice_locatorCacheTimeout\<close>
  raises \<^verbatim>\<open>IllegalArgumentException\<close> if \<open>t < -1\<close> and returns a proxy otherwise;
  \<^verbatim>\<open>ice_invocationTimeout\<close> raises it if \<open>t < 1\<close> and \<open>t\<close> is neither \<open>-1\<close> nor
  \<open>-2\<close>, and returns a proxy otherwise; \<^verbatim>\<open>ice_timeout\<close> raises it if \<open>t < 1\<close> and
  \<open>t\<close> is not \<open>-1\<close>, and returns a proxy otherwise. The message names the function
  and the rejected value.
\<close>

theorem timeout_validation:
  "(if t < - 1
    then ice_locatorCacheTimeout h this t =
           Inl (IllegalArgumentException
                  (''invalid value passed to ice_locatorCacheTimeout: '' @ show_int t))
    else (\<exists>h' p. ice_locatorCacheTimeout h this t = Inr (h', p))) \<and>
   (if t < 1 \<and> t \<noteq> - 1 \<and> t \<noteq> - 2
    then ice_invocationTimeout h this t =
           Inl (IllegalArgumentException
                  (''invalid value passed to ice_invocationTimeout: '' @ show_int t))
    else (\<exists>h' p. ice_invocationTimeout h this t = Inr (h', p))) \<and>
   (if t < 1 \<and> t \<noteq> - 1
    then ice_timeout h this t =
           Inl (IllegalArgumentException
                  (''invalid value passed to ice_timeout: '' @ show_int t))
    else (\<exists>h' p. ice_timeout h this t = Inr (h', p)))"
proof (intro conjI)
  show "if t < - 1
    then ice_locatorCacheTimeout h this t =
           Inl (IllegalArgumentException
                  (''invalid value passed to ice_locatorCacheTimeout: '' @ show_int t))
    else (\<exists>h' p. ice_locatorCacheTimeout h this t = Inr (h', p))"
    using derivation_succeeds
    by (simp add: ice_locatorCacheTimeout_def changeLocatorCacheTimeout_def)
  show "if t < 1 \<and> t \<noteq> - 1 \<and> t \<noteq> - 2
    then ice_invocationTimeout h this t =
           Inl (IllegalArgumentException
                  (''invalid value passed to ice_invocationTimeout: '' @ show_int t))
    else (\<exists>h' p. ice_invocationTimeout h this t = Inr (h', p))"
    using derivation_succeeds
    by (simp add: ice_invocationTimeout_def changeInvocationTimeout_def)
  have "\<exists>h' p. (case change h (referenceOf h this) same new of
                  (h1, r) \<Rightarrow> if r = referenceOf h this then Inr (h1, this) else newProxy (h1, r))
               = Inr (h', p)" for same new
    by (cases same) (simp_all add: change_def newProxy_eq)
  then show "if t < 1 \<and> t \<noteq> - 1
    then ice_timeout h this t =
           Inl (IllegalArgumentException
                  (''invalid value passed to ice_timeout: '' @ show_int t))
    else (\<exists>h' p. ice_timeout h this t = Inr (h', p))"
    by (simp add: ice_timeout_def changeTimeout_def)
qed

text \<open>
  In particular \<open>-2\<close>, \<open>0\<close> and \<open>0\<close> are rejected by the three functions in turn,
  and \<open>-1\<close> and \<open>1\<close> are accepted by each, as is \<open>-2\<close> by
  \<^verbatim>\<open>ice_invocationTimeout\<close>.
\<close>

theorem timeout_validation_witness:
  "ice_locatorCacheTimeout exampleHeap 0 (- 2) =
     Inl (IllegalArgumentException ''invalid value passed to ice_locatorCacheTimeout: -2'') \<and>
   ice_invocationTimeout exampleHeap 0 0 =
     Inl (IllegalArgumentException ''invalid value passed to ice_invocationTimeout: 0'') \<and>
   ice_timeout exampleHeap 0 0 =
     Inl (IllegalArgumentException ''invalid value passed to ice_timeout: 0'') \<and>
   (\<exists>h' p. ice_locatorCacheTimeout exampleHeap 0 (- 1) = Inr (h', p)) \<and>
   (\<exists>h' p. ice_locatorCacheTimeout exampleHeap 0 1 = Inr (h', p)) \<and>
   (\<exists>h' p. ice_invocationTimeout exampleHeap 0 (- 2) = Inr (h', p)) \<and>
   (\<exists>h' p. ice_invocationTimeout exampleHeap 0 (- 1) = Inr (h', p)) \<and>
   (\<exists>h' p. ice_invocationTimeout exampleHeap 0 1 = Inr (h', p)) \<and>
   (\<exists>h' p. ice_timeout exampleHeap 0 (- 1) = Inr (h', p)) \<and>
   (\<exists>h' p. ice_timeout exampleHeap 0 1 = Inr (h', p))"
  using timeout_validation [of "- 2" exampleHeap 0] timeout_validation [of 0 exampleHeap 0]
    timeout_validation [of "- 1" exampleHeap 0] timeout_validation [of 1 exampleHeap 0]
  by (simp add: show_int_small)

subsection \<open>Sharing in derivations\<close>

text \<open>
  Claim C2, as amended. On a usable proxy whose Reference satisfies the invariants
  of the data model, every derivation other than \<^verbatim>\<open>ice_context\<close>, called with
  the current value of its attribute, returns the handle it was called on and leaves
  the store as it is (nothing is allocated): \<^verbatim>\<open>ice_identity\<close>, \<^verbatim>\<open>ice_facet\<close>,
  \<^verbatim>\<open>ice_adapterId\<close>, \<^verbatim>\<open>ice_endpoints\<close>, \<^verbatim>\<open>ice_locatorCacheTimeout\<close>,
  \<^verbatim>\<open>ice_connectionCached\<close>, \<^verbatim>\<open>ice_endpointSelection\<close>, \<^verbatim>\<open>ice_secure\<close>,
  \<^verbatim>\<open>ice_encodingVersion\<close>, \<^verbatim>\<open>ice_preferSecure\<close>, \<^verbatim>\<open>ice_router\<close>,
  \<^verbatim>\<open>ice_locator\<close>, \<^verbatim>\<open>ice_collocationOptimized\<close>, \<^verbatim>\<open>ice_invocationTimeout\<close>,
  \<^verbatim>\<open>ice_timeout\<close>, \<^verbatim>\<open>ice_connectionId\<close>, \<^verbatim>\<open>ice_compress\<close> with the value
  of the override when it is set, and the mode helper of the current mode.
  \<^verbatim>\<open>ice_context\<close> returns, for every argument, a handle that names no proxy of the
  store before the call, and so never the handle it was called on.
\<close>

theorem derivation_sharing:
  assumes "validProxy h this" and "validReference (ref h this)"
  shows
    "ice_identity h this (ice_getIdentity h this) = Inr (h, this) \<and>
     ice_facet h this (ice_getFacet h this) = Inr (h, this) \<and>
     ice_adapterId h this (ice_getAdapterId h this) = Inr (h, this) \<and>
     ice_endpoints h this (ice_getEndpoints h this) = Inr (h, this) \<and>
     ice_locatorCacheTimeout h this (ice_getLocatorCacheTimeout h this) = Inr (h, this) \<and>
     ice_connectionCached h this (ice_isConnectionCached h this) = Inr (h, this) \<and>
     ice_endpointSelection h this (ice_getEndpointSelection h this) = Inr (h, this) \<and>
     ice_secure h this (ice_isSecure h this) = Inr (h, this) \<and>
     ice_encodingVersion h this (ice_getEncodingVersion h this) = Inr (h, this) \<and>
     ice_preferSecure h this (ice_isPreferSecure h this) = Inr (h, this) \<and>
     ice_router h this (ice_getRouter h this) = Inr (h, this) \<and>
     ice_locator h this (ice_getLocator h this) = Inr (h, this) \<and>
     ice_collocationOptimized h this (ice_isCollocationOptimized h this) = Inr (h, this) \<and>
     ice_invocationTimeout h this (ice_getInvocationTimeout h this) = Inr (h, this) \<and>
     ice_timeout h this (getTimeout (ref h this)) = Inr (h, this) \<and>
     ice_connectionId h this (ice_getConnectionId h this) = Inr (h, this) \<and>
     (case getCompress (ref h this) of
        None \<Rightarrow> True
      | Some b \<Rightarrow> ice_compress h this b = Inr (h, this)) \<and>
     (case getMode (ref h this) of
        ModeTwoway \<Rightarrow> ice_twoway h this
      | ModeOneway \<Rightarrow> ice_oneway h this
      | ModeBatchOneway \<Rightarrow> ice_batchOneway h this
      | ModeDatagram \<Rightarrow> ice_datagram h this
      | ModeBatchDatagram \<Rightarrow> ice_batchDatagram h this) = Inr (h, this) \<and>
     (\<exists>h'. ice_context h this c = Inr (h', length (proxies h))) \<and>
     length (proxies h) \<noteq> this"
proof -
  note inv = assms(2) [unfolded validReference_def]
  have 1: "ice_identity h this (ice_getIdentity h this) = Inr (h, this)"
    using inv by (simp add: ice_identity_def ice_getIdentity_def)
  have 2: "ice_facet h this (ice_getFacet h this) = Inr (h, this)"
    by (simp add: ice_facet_def ice_getFacet_def)
  have 3: "ice_adapterId h this (ice_getAdapterId h this) = Inr (h, this)"
    by (simp add: ice_adapterId_def ice_getAdapterId_def)
  have 4: "ice_endpoints h this (ice_getEndpoints h this) = Inr (h, this)"
    by (simp add: ice_endpoints_def ice_getEndpoints_def)
  have 5: "ice_locatorCacheTimeout h this (ice_getLocatorCacheTimeout h this) = Inr (h, this)"
    using inv by (simp add: ice_locatorCacheTimeout_def ice_getLocatorCacheTimeout_def)
  have 6: "ice_connectionCached h this (ice_isConnectionCached h this) = Inr (h, this)"
    by (simp add: ice_connectionCached_def ice_isConnectionCached_def)
  have 7: "ice_endpointSelection h this (ice_getEndpointSelection h this) = Inr (h, this)"
    by (simp add: ice_endpointSelection_def ice_getEndpointSelection_def)
  have 8: "ice_secure h this (ice_isSecure h this) = Inr (h, this)"
    by (simp add: ice_secure_def ice_isSecure_def)
  have 9: "ice_encodingVersion h this (ice_getEncodingVersion h this) = Inr (h, this)"
    by (simp add: ice_encodingVersion_def ice_getEncodingVersion_def)
  have 10: "ice_preferSecure h this (ice_isPreferSecure h this) = Inr (h, this)"
    by (simp add: ice_preferSecure_def ice_isPreferSecure_def)
  have "ice_getRouter h this = getRouterInfo (references h ! referenceOf h this)"
    by (simp add: ice_getRouter_def ref_def split: option.splits)
  then have 11: "ice_router h this (ice_getRouter h this) = Inr (h, this)"
    by (simp add: ice_router_def changeRouter_def change_same)
  have "ice_getLocator h this = getLocatorInfo (references h ! referenceOf h this)"
    by (simp add: ice_getLocator_def ref_def split: option.splits)
  then have 12: "ice_locator h this (ice_getLocator h this) = Inr (h, this)"
    by (simp add: ice_locator_def changeLocator_def change_same)
  have 13: "ice_collocationOptimized h this (ice_isCollocationOptimized h this) = Inr (h, this)"
    by (simp add: ice_collocationOptimized_def ice_isCollocationOptimized_def)
  have 14: "ice_invocationTimeout h this (ice_getInvocationTimeout h this) = Inr (h, this)"
    using inv by (auto simp add: ice_invocationTimeout_def ice_getInvocationTimeout_def)
  have 15: "ice_timeout h this (getTimeout (ref h this)) = Inr (h, this)"
    using inv by (auto simp add: ice_timeout_def changeTimeout_def ref_def change_same)
  have 16: "ice_connectionId h this (ice_getConnectionId h this) = Inr (h, this)"
    by (simp add: ice_connectionId_def ice_getConnectionId_def changeConnectionId_def ref_def
        change_same)
  have 17: "case getCompress (ref h this) of
        None \<Rightarrow> True
      | Some b \<Rightarrow> ice_compress h this b = Inr (h, this)"
  proof (cases "getCompress (ref h this)")
    case None
    then show ?thesis by simp
  next
    case (Some b)
    then show ?thesis
      by (simp add: ice_compress_def changeCompress_def ref_def change_same)
  qed
  have 18: "(case getMode (ref h this) of
        ModeTwoway \<Rightarrow> ice_twoway h this
      | ModeOneway \<Rightarrow> ice_oneway h this
      | ModeBatchOneway \<Rightarrow> ice_batchOneway h this
      | ModeDatagram \<Rightarrow> ice_datagram h this
      | ModeBatchDatagram \<Rightarrow> ice_batchDatagram h this) = Inr (h, this)"
    by (cases "getMode (ref h this)")
       (simp_all add: ice_twoway_def ice_oneway_def ice_batchOneway_def ice_datagram_def
          ice_batchDatagram_def)
  have 19: "\<exists>h'. ice_context h this c = Inr (h', length (proxies h))"
    by (simp add: ice_context_def changeContext_def change_def newProxy_eq)
  have 20: "length (proxies h) \<noteq> this"
    using assms(1) by (auto simp add: validProxy_def)
  show ?thesis
    using 1 2 3 4 5 6 7 8 9 10 11 12 13 14 15 16 17 18 19 20 by blast
qed

text \<open>
  Claim C2 as stated fails for \<^verbatim>\<open>ice_context\<close>: called on the first proxy of the
  example store with that proxy's own context, it allocates a new proxy, on the
  same Reference, and returns the new handle \<open>2\<close> instead of the handle \<open>0\<close> it
  was called on.
\<close>

theorem derivation_sharing_counterexample:
  "ice_context exampleHeap 0 (ice_getContext exampleHeap 0) =
     Inr (exampleHeap\<lparr>proxies := proxies exampleHeap @
            [\<lparr>reference = Some 0, requestHandler = None, batchRequestQueue = None\<rparr>]\<rparr>, 2) \<and>
   ice_context exampleHeap 0 (ice_getContext exampleHeap 0) \<noteq> Inr (exampleHeap, 0)"
proof -
  have "ice_getContext exampleHeap 0 = getContext (references exampleHeap ! referenceOf exampleHeap 0)"
    by (simp add: ice_getContext_def ref_def)
  then have "ice_context exampleHeap 0 (ice_getContext exampleHeap 0) =
      newProxy (exampleHeap, referenceOf exampleHeap 0)"
    by (simp add: ice_context_def changeContext_def change_same)
  moreover have "referenceOf exampleHeap 0 = 0" "length (proxies exampleHeap) = 2"
    by (simp_all add: referenceOf_def proxyAt_def exampleHeap_def)
  ultimately show ?thesis
    by (simp add: newProxy_eq)
qed

text \<open>
  Instances of the amended claim on the two proxies of the example store, the first
  two-way and the second one-way.
\<close>

theorem derivation_sharing_witness:
  "validProxy exampleHeap 0 \<and> validReference (ref exampleHeap 0) \<and>
   ice_identity exampleHeap 0 \<lparr>name = ''acc'', category = []\<rparr> = Inr (exampleHeap, 0) \<and>
   ice_facet exampleHeap 0 [] = Inr (exampleHeap, 0) \<and>
   ice_secure exampleHeap 0 False = Inr (exampleHeap, 0) \<and>
   ice_locatorCacheTimeout exampleHeap 0 (- 1) = Inr (exampleHeap, 0) \<and>
   ice_invocationTimeout exampleHeap 0 (- 1) = Inr (exampleHeap, 0) \<and>
   ice_timeout exampleHeap 0 (- 1) = Inr (exampleHeap, 0) \<and>
   ice_router exampleHeap 0 None = Inr (exampleHeap, 0) \<and>
   ice_compress exampleHeap 0 False = Inr (exampleHeap, 0) \<and>
   ice_twoway exampleHeap 0 = Inr (exampleHeap, 0) \<and>
   ice_oneway exampleHeap 1 = Inr (exampleHeap, 1) \<and>
   (\<exists>h'. ice_context exampleHeap 0 [(''user'', ''alice'')] = Inr (h', 2))"
proof -
  have v: "validProxy exampleHeap 0" "validProxy exampleHeap 1"
    using validProxy_example by simp_all
  have r: "validReference (ref exampleHeap 0)" "validReference (ref exampleHeap 1)"
    using validReference_example by (simp_all add: ref_example validReference_def)
  have l: "length (proxies exampleHeap) = 2"
    by (simp add: exampleHeap_def)
  show ?thesis
    using v r derivation_sharing [OF v(1) r(1), of "[(''user'', ''alice'')]"]
      derivation_sharing [OF v(2) r(2), of "[]"]
    by (simp add: l ref_example exampleReference_def ice_getIdentity_def ice_getFacet_def
        ice_isSecure_def ice_getLocatorCacheTimeout_def ice_getInvocationTimeout_def
        ice_getRouter_def)
qed

subsection \<open>The two-way-only check\<close>

lemma not_twoway_example: "\<not> ice_isTwoway exampleHeap (Suc 0)"
  by (simp add: ice_isTwoway_def ref_example)

text \<open>
  Claim C3, as amended. For every proxy whose mode is not two-way: in the C++98
  mapping, \<^verbatim>\<open>ice_isA\<close>, \<^verbatim>\<open>ice_id\<close> and \<^verbatim>\<open>ice_ids\<close> raise
  \<^verbatim>\<open>TwowayOnlyException\<close> with the operation name when begun with the
  synchronous flag set, and \<^verbatim>\<open>IllegalArgumentException\<close> when begun without it;
  in the C++11 mapping, where the functions take no such flag, they raise
  \<^verbatim>\<open>IllegalArgumentException\<close> at every call; \<^verbatim>\<open>ice_ping\<close> makes no mode check
  in either mapping and submits its invocation.
\<close>

theorem twoway_only_check:
  assumes "\<not> ice_isTwoway h this"
  shows
    "begin_ice_isA outgoing h this typeId ctx True =
       Inl (Local (TwowayOnlyException ''ice_isA'')) \<and>
     begin_ice_id outgoing h this ctx True = Inl (Local (TwowayOnlyException ''ice_id'')) \<and>
     begin_ice_ids outgoing h this ctx True = Inl (Local (TwowayOnlyException ''ice_ids'')) \<and>
     begin_ice_isA outgoing h this typeId ctx False =
       Inl (IllegalArgumentException ''`ice_isA' can only be called with a twoway proxy'') \<and>
     begin_ice_id outgoing h this ctx False =
       Inl (IllegalArgumentException ''`ice_id' can only be called with a twoway proxy'') \<and>
     begin_ice_ids outgoing h this ctx False =
       Inl (IllegalArgumentException ''`ice_ids' can only be called with a twoway proxy'') \<and>
     ice_isA_cpp11 h this typeId ctx =
       Inl (IllegalArgumentException ''`ice_isA' can only be called with a twoway proxy'') \<and>
     ice_id_cpp11 h this ctx =
       Inl (IllegalArgumentException ''`ice_id' can only be called with a twoway proxy'') \<and>
     ice_ids_cpp11 h this ctx =
       Inl (IllegalArgumentException ''`ice_ids' can only be called with a twoway proxy'') \<and>
     begin_ice_ping outgoing h this ctx sync =
       Inr (outgoing sync \<lparr>operation = ''ice_ping'', operationMode = Nonmutating,
                            invocationContext = ctx, params = EmptyParams\<rparr>) \<and>
     ice_ping_cpp11 h this ctx =
       Inr \<lparr>operation = ''ice_ping'', operationMode = Nonmutating,
            invocationContext = ctx, params = EmptyParams\<rparr>"
  using assms
  by (simp add: begin_ice_isA_def begin_ice_id_def begin_ice_ids_def begin_ice_ping_def
      ice_isA_cpp11_def ice_id_cpp11_def ice_ids_cpp11_def ice_ping_cpp11_def
      checkTwowayOnly_def checkTwowayOnly_cpp11_def
      ice_isA_name_def ice_id_name_def ice_ids_name_def ice_ping_name_def)

text \<open>
  Claim C3 as stated fails in the C++11 mapping: on the one-way proxy of the example
  store \<^verbatim>\<open>__ice_isA\<close>, which serves the synchronous \<^verbatim>\<open>ice_isA\<close> too, raises
  \<^verbatim>\<open>IllegalArgumentException\<close> and not \<^verbatim>\<open>TwowayOnlyException\<close>.
\<close>

theorem twoway_only_check_counterexample:
  "\<not> ice_isTwoway exampleHeap 1 \<and>
   ice_isA_cpp11 exampleHeap 1 ''::X'' [] =
     Inl (IllegalArgumentException ''`ice_isA' can only be called with a twoway proxy'') \<and>
   ice_isA_cpp11 exampleHeap 1 ''::X'' [] \<noteq> Inl (Local (TwowayOnlyException ''ice_isA''))"
  using not_twoway_example
  by (simp add: ice_isA_cpp11_def checkTwowayOnly_cpp11_def ice_isA_name_def)

text \<open>The amended claim on the one-way proxy of the example store.\<close>

theorem twoway_only_check_witness:
  "\<not> ice_isTwoway exampleHeap 1 \<and>
   begin_ice_isA exampleOutgoing exampleHeap 1 ''::X'' [] True =
     Inl (Local (TwowayOnlyException ''ice_isA'')) \<and>
   begin_ice_isA exampleOutgoing exampleHeap 1 ''::X'' [] False =
     Inl (IllegalArgumentException ''`ice_isA' can only be called with a twoway proxy'') \<and>
   ice_ids_cpp11 exampleHeap 1 [] =
     Inl (IllegalArgumentException ''`ice_ids' can only be called with a twoway proxy'') \<and>
   begin_ice_ping exampleOutgoing exampleHeap 1 [] True = Inr exampleResult"
proof -
  have n: "\<not> ice_isTwoway exampleHeap 1"
    using not_twoway_example by simp
  show ?thesis
    using n twoway_only_check [OF n, of exampleOutgoing "''::X''" "[]" True]
    by (simp add: exampleOutgoing_def)
qed

subsection \<open>The handler cache\<close>

lemma store_read:
  "this < length (proxies h) \<Longrightarrow>
   requestHandler (proxyAt (storeRequestHandler h this v) this) = v"
  by (simp add: storeRequestHandler_def proxyAt_def)

lemma store_current:
  "requestHandler (proxyAt h this) = v \<Longrightarrow> storeRequestHandler h this v = h"
  by (auto simp add: storeRequestHandler_def proxyAt_def)

lemma store_referenceOf:
  "referenceOf (storeRequestHandler h this v) p = referenceOf h p"
  by (cases "this < length (proxies h)")
     (auto simp add: storeRequestHandler_def referenceOf_def proxyAt_def nth_list_update
        list_update_beyond)

lemma update_referenceOf:
  "referenceOf (updateRequestHandler update h this previous handler) p = referenceOf h p"
  by (simp add: updateRequestHandler_def store_referenceOf split: option.splits)

text \<open>
  Claim C4. On a usable proxy:
  \<^item> \<^verbatim>\<open>__setRequestHandler\<close> returns its argument and leaves the store as it is
    when connection caching is off; when it is on, it stores the argument only if
    the slot is empty, and returns what the slot then holds: the argument after a
    store, the handler already cached otherwise (first writer wins);
  \<^item> \<^verbatim>\<open>__updateRequestHandler\<close> leaves the store as it is unless connection
    caching is on, the slot is non-empty and the slot differs from the new handler;
    when it changes the slot, the new content is what the cached handler's
    \<^verbatim>\<open>update(previous, new)\<close> returns. This holds for every \<open>update\<close>.
  The last two conjuncts are the exact condition of the code, which also requires
  \<open>previous\<close> to be non-null before it calls \<open>update\<close>, and the consequence that
  for handlers whose \<open>update\<close> with a null \<open>previous\<close> returns the handler itself
  the function is the conditional assignment of the claim.
\<close>

theorem handler_cache_rules:
  assumes "validProxy h this"
  shows
    "setRequestHandler h this handler =
       (if getCacheConnection (ref h this)
        then (if requestHandler (proxyAt h this) = None
              then (storeRequestHandler h this handler, handler)
              else (h, requestHandler (proxyAt h this)))
        else (h, handler)) \<and>
     (if getCacheConnection (ref h this)
      then snd (setRequestHandler h this handler) =
             requestHandler (proxyAt (fst (setRequestHandler h this handler)) this)
      else True) \<and>
     (if getCacheConnection (ref h this) \<and> requestHandler (proxyAt h this) \<noteq> None \<and>
         requestHandler (proxyAt h this) \<noteq> handler
      then updateRequestHandler update h this previous handler = h \<or>
           updateRequestHandler update h this previous handler =
             storeRequestHandler h this
               (update (the (requestHandler (proxyAt h this))) previous handler)
      else updateRequestHandler update h this previous handler = h) \<and>
     updateRequestHandler update h this previous handler =
       (if getCacheConnection (ref h this) \<and> previous \<noteq> None \<and>
           requestHandler (proxyAt h this) \<noteq> None \<and>
           requestHandler (proxyAt h this) \<noteq> handler
        then storeRequestHandler h this
               (update (the (requestHandler (proxyAt h this))) previous handler)
        else h) \<and>
     ((\<forall>current new. update current None new = Some current) \<longrightarrow>
        updateRequestHandler update h this previous handler =
          (if getCacheConnection (ref h this) \<and> requestHandler (proxyAt h this) \<noteq> None \<and>
              requestHandler (proxyAt h this) \<noteq> handler
           then storeRequestHandler h this
                  (update (the (requestHandler (proxyAt h this))) previous handler)
           else h))"
proof -
  have l: "this < length (proxies h)"
    using assms by (simp add: validProxy_def)
  have s: "setRequestHandler h this handler =
       (if getCacheConnection (ref h this)
        then (if requestHandler (proxyAt h this) = None
              then (storeRequestHandler h this handler, handler)
              else (h, requestHandler (proxyAt h this)))
        else (h, handler))"
    using store_read [OF l] by (simp add: setRequestHandler_def Let_def)
  have r: "if getCacheConnection (ref h this)
      then snd (setRequestHandler h this handler) =
             requestHandler (proxyAt (fst (setRequestHandler h this handler)) this)
      else True"
    by (simp add: setRequestHandler_def Let_def)
  have u: "updateRequestHandler update h this previous handler =
       (if getCacheConnection (ref h this) \<and> previous \<noteq> None \<and>
           requestHandler (proxyAt h this) \<noteq> None \<and>
           requestHandler (proxyAt h this) \<noteq> handler
        then storeRequestHandler h this
               (update (the (requestHandler (proxyAt h this))) previous handler)
        else h)"
    by (auto simp add: updateRequestHandler_def split: option.splits)
  have c: "if getCacheConnection (ref h this) \<and> requestHandler (proxyAt h this) \<noteq> None \<and>
         requestHandler (proxyAt h this) \<noteq> handler
      then updateRequestHandler update h this previous handler = h \<or>
           updateRequestHandler update h this previous handler =
             storeRequestHandler h this
               (update (the (requestHandler (proxyAt h this))) previous handler)
      else updateRequestHandler update h this previous handler = h"
    unfolding u by auto
  have e: "(\<forall>current new. update current None new = Some current) \<longrightarrow>
        updateRequestHandler update h this previous handler =
          (if getCacheConnection (ref h this) \<and> requestHandler (proxyAt h this) \<noteq> None \<and>
              requestHandler (proxyAt h this) \<noteq> handler
           then storeRequestHandler h this
                  (update (the (requestHandler (proxyAt h this))) previous handler)
           else h)"
  proof
    assume cas: "\<forall>current new. update current None new = Some current"
    show "updateRequestHandler update h this previous handler =
          (if getCacheConnection (ref h this) \<and> requestHandler (proxyAt h this) \<noteq> None \<and>
              requestHandler (proxyAt h this) \<noteq> handler
           then storeRequestHandler h this
                  (update (the (requestHandler (proxyAt h this))) previous handler)
           else h)"
    proof (cases previous)
      case None
      have "storeRequestHandler h this
              (update (the (requestHandler (proxyAt h this))) None handler) = h"
        if "requestHandler (proxyAt h this) \<noteq> None"
        using that cas by (intro store_current) auto
      then show ?thesis
        unfolding u using None by simp
    next
      case (Some a)
      then show ?thesis
        unfolding u by simp
    qed
  qed
  show ?thesis
    using s r c u e by blast
qed

lemma cachedHeap_facts:
  "validProxy cachedHeap 0 \<and> validProxy cachedHeap (Suc 0) \<and> validProxy cachedHeap 2 \<and>
   getCacheConnection (ref cachedHeap 0) \<and> getCacheConnection (ref cachedHeap (Suc 0)) \<and>
   \<not> getCacheConnection (ref cachedHeap 2) \<and>
   requestHandler (proxyAt cachedHeap 0) = None \<and>
   requestHandler (proxyAt cachedHeap (Suc 0)) = Some 5 \<and>
   requestHandler (proxyAt cachedHeap 2) = None"
  by (simp add: validProxy_def cachedHeap_def proxyAt_def ref_def referenceOf_def
      exampleReference_def)

text \<open>
  The rules on the three proxies of the handler store, with an \<open>update\<close> that
  replaces the handler only when it is \<open>previous\<close>.
\<close>

theorem handler_cache_rules_witness:
  "validProxy cachedHeap 0 \<and> validProxy cachedHeap 1 \<and> validProxy cachedHeap 2 \<and>
   (\<forall>current new. exampleUpdate current None new = Some current) \<and>
   setRequestHandler cachedHeap 0 (Some 7) = (storeRequestHandler cachedHeap 0 (Some 7), Some 7) \<and>
   setRequestHandler cachedHeap 1 (Some 7) = (cachedHeap, Some 5) \<and>
   setRequestHandler cachedHeap 2 (Some 7) = (cachedHeap, Some 7) \<and>
   updateRequestHandler exampleUpdate cachedHeap 1 (Some 5) (Some 9) =
     storeRequestHandler cachedHeap 1 (Some 9) \<and>
   updateRequestHandler exampleUpdate cachedHeap 1 (Some 4) (Some 9) =
     storeRequestHandler cachedHeap 1 (Some 5) \<and>
   updateRequestHandler exampleUpdate cachedHeap 1 None (Some 9) = cachedHeap \<and>
   updateRequestHandler exampleUpdate cachedHeap 1 (Some 4) (Some 5) = cachedHeap \<and>
   updateRequestHandler exampleUpdate cachedHeap 0 (Some 5) (Some 9) = cachedHeap \<and>
   updateRequestHandler exampleUpdate cachedHeap 2 (Some 5) (Some 9) = cachedHeap"
proof -
  have v: "validProxy cachedHeap 0" "validProxy cachedHeap 1" "validProxy cachedHeap 2"
    using cachedHeap_facts by simp_all
  show ?thesis
    using cachedHeap_facts
      handler_cache_rules [OF v(1), of "Some 7" exampleUpdate "Some 5" ]
      handler_cache_rules [OF v(2), of "Some 7" exampleUpdate "Some 5"]
      handler_cache_rules [OF v(3), of "Some 7" exampleUpdate "Some 5"]
      handler_cache_rules [OF v(2), of "Some 9" exampleUpdate "Some 5"]
      handler_cache_rules [OF v(2), of "Some 9" exampleUpdate "Some 4"]
      handler_cache_rules [OF v(2), of "Some 9" exampleUpdate None]
      handler_cache_rules [OF v(2), of "Some 5" exampleUpdate "Some 4"]
      handler_cache_rules [OF v(1), of "Some 9" exampleUpdate "Some 5"]
      handler_cache_rules [OF v(3), of "Some 9" exampleUpdate "Some 5"]
    by (simp add: exampleUpdate_def)
qed

subsection \<open>Retry classification\<close>

text \<open>
  Claim C1. For every failure handled by \<^verbatim>\<open>__handleException\<close>, whatever the
  handler, the counter and the retry policy are:
  \<^item> if the exception is a local exception and the request was not sent, or the mode
    is \<open>Nonmutating\<close> or \<open>Idempotent\<close>, or the exception is
    \<^verbatim>\<open>CloseConnectionException\<close> or \<^verbatim>\<open>ObjectNotExistException\<close>, the outcome is
    the one of \<^verbatim>\<open>checkRetryAfterException\<close> on this exception, the proxy's
    Reference and the counter (with the original exception in place of a
    \<^verbatim>\<open>CommunicatorDestroyedException\<close>); in every other case the outcome is the
    original exception, unchanged;
  \<^item> hence some policy can make the function return a retry delay if and only if
    that condition holds;
  \<^item> in particular, in the mutating mode \<open>Normal\<close> with \<open>sent\<close> set, every exception
    other than the two named ones is propagated unchanged;
  \<^item> in every case the store is left as \<^verbatim>\<open>__updateRequestHandler(handler, 0)\<close>
    leaves it.
\<close>

theorem handleException_retry:
  "snd (handleException update policy h this ex handler mode sent cnt) =
     (case ex of
        Local l \<Rightarrow>
          if \<not> sent \<or> mode = Nonmutating \<or> mode = Idempotent \<or>
             l = CloseConnectionException \<or> l = ObjectNotExistException
          then (case policy l (referenceOf h this) cnt of
                  Inl e \<Rightarrow> if e = Local CommunicatorDestroyedException then Inl ex else Inl e
                | Inr r \<Rightarrow> Inr r)
          else Inl ex
      | _ \<Rightarrow> Inl ex) \<and>
   ((\<exists>p r. snd (handleException update p h this ex handler mode sent cnt) = Inr r) \<longleftrightarrow>
      (\<exists>l. ex = Local l \<and>
           (\<not> sent \<or> mode = Nonmutating \<or> mode = Idempotent \<or>
            l = CloseConnectionException \<or> l = ObjectNotExistException))) \<and>
   (mode = Normal \<and> sent \<and> ex \<noteq> Local CloseConnectionException \<and>
    ex \<noteq> Local ObjectNotExistException \<longrightarrow>
      snd (handleException update policy h this ex handler mode sent cnt) = Inl ex) \<and>
   fst (handleException update policy h this ex handler mode sent cnt) =
     updateRequestHandler update h this handler None"
proof -
  have eq: "snd (handleException update p h this ex handler mode sent cnt) =
     (case ex of
        Local l \<Rightarrow>
          if \<not> sent \<or> mode = Nonmutating \<or> mode = Idempotent \<or>
             l = CloseConnectionException \<or> l = ObjectNotExistException
          then (case p l (referenceOf h this) cnt of
                  Inl e \<Rightarrow> if e = Local CommunicatorDestroyedException then Inl ex else Inl e
                | Inr r \<Rightarrow> Inr r)
          else Inl ex
      | _ \<Rightarrow> Inl ex)" for p
    by (cases ex)
       (auto simp add: handleException_def Let_def asLocalException_def
          isCloseConnectionException_def isObjectNotExistException_def update_referenceOf
          split: sum.splits)
  have iff: "(\<exists>p r. snd (handleException update p h this ex handler mode sent cnt) = Inr r) \<longleftrightarrow>
      (\<exists>l. ex = Local l \<and>
           (\<not> sent \<or> mode = Nonmutating \<or> mode = Idempotent \<or>
            l = CloseConnectionException \<or> l = ObjectNotExistException))"
  proof
    assume "\<exists>p r. snd (handleException update p h this ex handler mode sent cnt) = Inr r"
    then show "\<exists>l. ex = Local l \<and>
           (\<not> sent \<or> mode = Nonmutating \<or> mode = Idempotent \<or>
            l = CloseConnectionException \<or> l = ObjectNotExistException)"
      unfolding eq by (cases ex) (auto split: if_splits)
  next
    assume "\<exists>l. ex = Local l \<and>
           (\<not> sent \<or> mode = Nonmutating \<or> mode = Idempotent \<or>
            l = CloseConnectionException \<or> l = ObjectNotExistException)"
    then have "snd (handleException update (\<lambda>l r c. Inr (0, c + 1)) h this ex handler mode sent cnt)
        = Inr (0, cnt + 1)"
      unfolding eq by auto
    then show "\<exists>p r. snd (handleException update p h this ex handler mode sent cnt) = Inr r"
      by blast
  qed
  have part: "mode = Normal \<and> sent \<and> ex \<noteq> Local CloseConnectionException \<and>
    ex \<noteq> Local ObjectNotExistException \<longrightarrow>
      snd (handleException update policy h this ex handler mode sent cnt) = Inl ex"
    unfolding eq by (cases ex) auto
  have st: "fst (handleException update policy h this ex handler mode sent cnt) =
     updateRequestHandler update h this handler None"
    by (auto simp add: handleException_def Let_def split: sum.splits)
  show ?thesis
    using eq [of policy] iff part st by blast
qed

text \<open>
  On the example store, with a policy that grants three attempts: a connect timeout
  after a sent mutating request is propagated; a graceful close or a missing object
  is retried; so is a connect timeout when the request was not sent or the mode is
  idempotent or non-mutating; the policy's refusal and a system exception are
  propagated.
\<close>

theorem handleException_retry_witness:
  "snd (handleException exampleUpdate examplePolicy exampleHeap 0
          (Local ConnectTimeoutException) (Some 5) Normal True 0) =
     Inl (Local ConnectTimeoutException) \<and>
   snd (handleException exampleUpdate examplePolicy exampleHeap 0
          (Local CloseConnectionException) (Some 5) Normal True 0) = Inr (0, 1) \<and>
   snd (handleException exampleUpdate examplePolicy exampleHeap 0
          (Local ObjectNotExistException) (Some 5) Normal True 0) = Inr (0, 1) \<and>
   snd (handleException exampleUpdate examplePolicy exampleHeap 0
          (Local ConnectTimeoutException) (Some 5) Normal False 0) = Inr (0, 1) \<and>
   snd (handleException exampleUpdate examplePolicy exampleHeap 0
          (Local ConnectTimeoutException) (Some 5) Idempotent True 0) = Inr (0, 1) \<and>
   snd (handleException exampleUpdate examplePolicy exampleHeap 0
          (Local ConnectTimeoutException) (Some 5) Nonmutating True 0) = Inr (0, 1) \<and>
   snd (handleException exampleUpdate examplePolicy exampleHeap 0
          (Local CloseConnectionException) (Some 5) Normal True 3) =
     Inl (Local CloseConnectionException) \<and>
   snd (handleException exampleUpdate examplePolicy exampleHeap 0
          (SystemException ''internal'') (Some 5) Idempotent False 0) =
     Inl (SystemException ''internal'')"
  using handleException_retry [of exampleUpdate examplePolicy exampleHeap 0
      "Local ConnectTimeoutException" "Some 5" Normal True 0]
    handleException_retry [of exampleUpdate examplePolicy exampleHeap 0
      "Local CloseConnectionException" "Some 5" Normal True 0]
    handleException_retry [of exampleUpdate examplePolicy exampleHeap 0
      "Local ObjectNotExistException" "Some 5" Normal True 0]
    handleException_retry [of exampleUpdate examplePolicy exampleHeap 0
      "Local ConnectTimeoutException" "Some 5" Normal False 0]
    handleException_retry [of exampleUpdate examplePolicy exampleHeap 0
      "Local ConnectTimeoutException" "Some 5" Idempotent True 0]
    handleException_retry [of exampleUpdate examplePolicy exampleHeap 0
      "Local ConnectTimeoutException" "Some 5" Nonmutating True 0]
    handleException_retry [of exampleUpdate examplePolicy exampleHeap 0
      "Local CloseConnectionException" "Some 5" Normal True 3]
    handleException_retry [of exampleUpdate examplePolicy exampleHeap 0
      "SystemException ''internal''" "Some 5" Idempotent False 0]
  by (simp add: examplePolicy_def)

subsection \<open>Completion of invocations\<close>

lemma mode_example:
  "getMode (ref exampleHeap 0) = ModeTwoway \<and> getMode (ref exampleHeap (Suc 0)) = ModeOneway"
  by (simp add: ref_example exampleReference_def)

text \<open>
  Claim C7. \<^verbatim>\<open>end_ice_invoke\<close> and \<^verbatim>\<open>___end_ice_invoke\<close> return normally, with
  flag \<open>ok\<close> and output bytes \<open>out\<close>, exactly if the result passes \<^verbatim>\<open>__check\<close>,
  \<^verbatim>\<open>__wait()\<close> returns \<open>ok\<close> (true for a successful reply, false for a user
  exception), and either the mode of the proxy's Reference is two-way and \<open>out\<close> is
  the encapsulation read from the result, or the mode is another one and \<open>out\<close> is
  what the caller's buffer held before the call, which is left untouched.
\<close>

theorem end_ice_invoke_result:
  "(end_ice_invoke h this outEncaps result = Inr (ok, out) \<longleftrightarrow>
      check result this ''ice_invoke'' = None \<and> wait result = Inr ok \<and>
      (if getMode (ref h this) = ModeTwoway then readParamEncaps result = Inr out
       else out = outEncaps)) \<and>
   (end_ice_invoke_range h this outEncaps result = Inr (ok, out) \<longleftrightarrow>
      check result this ''ice_invoke'' = None \<and> wait result = Inr ok \<and>
      (if getMode (ref h this) = ModeTwoway then readParamEncaps result = Inr out
       else out = outEncaps))"
  by (auto simp add: end_ice_invoke_def end_ice_invoke_range_def ice_invoke_name_def
      split: option.splits sum.splits)

text \<open>
  A successful reply and a user exception, on the two-way and on the one-way proxy
  of the example store; the caller's buffer holds the byte \<open>9\<close>.
\<close>

theorem end_ice_invoke_result_witness:
  "end_ice_invoke exampleHeap 0 [9] exampleResult = Inr (True, [1, 2, 3]) \<and>
   end_ice_invoke exampleHeap 1 [9] exampleResult = Inr (True, [9]) \<and>
   end_ice_invoke exampleHeap 0 [9] (exampleResult\<lparr>wait := Inr False\<rparr>) = Inr (False, [1, 2, 3]) \<and>
   end_ice_invoke_range exampleHeap 0 [9] exampleResult = Inr (True, [1, 2, 3]) \<and>
   end_ice_invoke_range exampleHeap 1 [9] (exampleResult\<lparr>wait := Inr False\<rparr>) = Inr (False, [9])"
  using end_ice_invoke_result [of exampleHeap 0 "[9]" exampleResult True "[1, 2, 3]"]
    end_ice_invoke_result [of exampleHeap 1 "[9]" exampleResult True "[9]"]
    end_ice_invoke_result [of exampleHeap 0 "[9]" "exampleResult\<lparr>wait := Inr False\<rparr>" False "[1, 2, 3]"]
    end_ice_invoke_result [of exampleHeap 1 "[9]" "exampleResult\<lparr>wait := Inr False\<rparr>" False "[9]"]
  by (simp add: mode_example exampleResult_def)

text \<open>
  Claim C9. When \<^verbatim>\<open>__wait()\<close> reports a user exception and
  \<^verbatim>\<open>__throwUserException()\<close> raises it, with type id \<open>typeId\<close>, then
  \<^verbatim>\<open>end_ice_isA\<close>, \<^verbatim>\<open>end_ice_id\<close> and \<^verbatim>\<open>end_ice_ids\<close>, and on a two-way
  proxy \<^verbatim>\<open>__end\<close> and with it \<^verbatim>\<open>end_ice_ping\<close>, raise
  \<^verbatim>\<open>UnknownUserException\<close> carrying \<open>typeId\<close>, provided the result passes
  \<^verbatim>\<open>__check\<close> for the operation. Neither exception is retried: for a user
  exception \<^verbatim>\<open>__handleException\<close> propagates it whatever the policy, the mode and
  the \<open>sent\<close> flag are, and the \<^verbatim>\<open>UnknownUserException\<close> of a sent mutating
  request likewise.
\<close>

theorem user_exception_wrapped:
  assumes "wait result = Inr False"
      and "throwUserException result = UserException typeId"
  shows
    "(check result this ''ice_isA'' = None \<longrightarrow>
        end_ice_isA h this result = Inl (Local (UnknownUserException typeId))) \<and>
     (check result this ''ice_id'' = None \<longrightarrow>
        end_ice_id h this result = Inl (Local (UnknownUserException typeId))) \<and>
     (check result this ''ice_ids'' = None \<longrightarrow>
        end_ice_ids h this result = Inl (Local (UnknownUserException typeId))) \<and>
     (check result this opName = None \<and> getMode (ref h this) = ModeTwoway \<longrightarrow>
        endOperation h this result opName = Inl (Local (UnknownUserException typeId))) \<and>
     (check result this ''ice_ping'' = None \<and> getMode (ref h this) = ModeTwoway \<longrightarrow>
        end_ice_ping h this result = Inl (Local (UnknownUserException typeId))) \<and>
     snd (handleException update policy h this (UserException typeId) handler mode sent cnt) =
       Inl (UserException typeId) \<and>
     snd (handleException update policy h this (Local (UnknownUserException typeId)) handler
            Normal True cnt) =
       Inl (Local (UnknownUserException typeId))"
proof -
  have w: "rethrowUserException result = Local (UnknownUserException typeId)"
    using assms(2) by (simp add: rethrowUserException_def)
  have 1: "check result this ''ice_isA'' = None \<longrightarrow>
        end_ice_isA h this result = Inl (Local (UnknownUserException typeId))"
    using assms(1) w by (simp add: end_ice_isA_def ice_isA_name_def)
  have 2: "check result this ''ice_id'' = None \<longrightarrow>
        end_ice_id h this result = Inl (Local (UnknownUserException typeId))"
    using assms(1) w by (simp add: end_ice_id_def ice_id_name_def)
  have 3: "check result this ''ice_ids'' = None \<longrightarrow>
        end_ice_ids h this result = Inl (Local (UnknownUserException typeId))"
    using assms(1) w by (simp add: end_ice_ids_def ice_ids_name_def)
  have 4: "check result this n = None \<and> getMode (ref h this) = ModeTwoway \<longrightarrow>
        endOperation h this result n = Inl (Local (UnknownUserException typeId))" for n
    using assms(1) w by (simp add: endOperation_def)
  have 5: "check result this ''ice_ping'' = None \<and> getMode (ref h this) = ModeTwoway \<longrightarrow>
        end_ice_ping h this result = Inl (Local (UnknownUserException typeId))"
    using 4 [of "''ice_ping''"] by (simp add: end_ice_ping_def ice_ping_name_def)
  have 6: "snd (handleException update policy h this (UserException typeId) handler mode sent cnt) =
       Inl (UserException typeId)"
    by (simp add: handleException_def Let_def asLocalException_def)
  have 7: "snd (handleException update policy h this (Local (UnknownUserException typeId)) handler
            Normal True cnt) =
       Inl (Local (UnknownUserException typeId))"
    by (simp add: handleException_def Let_def asLocalException_def
        isCloseConnectionException_def isObjectNotExistException_def)
  show ?thesis
    using 1 2 3 4 [of opName] 5 6 7 by blast
qed

text \<open>A reply with the user exception \<open>::Test::Error\<close> on the two-way example proxy.\<close>

theorem user_exception_wrapped_witness:
  "wait (exampleResult\<lparr>wait := Inr False\<rparr>) = Inr False \<and>
   throwUserException (exampleResult\<lparr>wait := Inr False\<rparr>) = UserException ''::Test::Error'' \<and>
   check (exampleResult\<lparr>wait := Inr False\<rparr>) 0 ''ice_isA'' = None \<and>
   getMode (ref exampleHeap 0) = ModeTwoway \<and>
   end_ice_isA exampleHeap 0 (exampleResult\<lparr>wait := Inr False\<rparr>) =
     Inl (Local (UnknownUserException ''::Test::Error'')) \<and>
   end_ice_id exampleHeap 0 (exampleResult\<lparr>wait := Inr False\<rparr>) =
     Inl (Local (UnknownUserException ''::Test::Error'')) \<and>
   end_ice_ids exampleHeap 0 (exampleResult\<lparr>wait := Inr False\<rparr>) =
     Inl (Local (UnknownUserException ''::Test::Error'')) \<and>
   end_ice_ping exampleHeap 0 (exampleResult\<lparr>wait := Inr False\<rparr>) =
     Inl (Local (UnknownUserException ''::Test::Error'')) \<and>
   snd (handleException exampleUpdate examplePolicy exampleHeap 0
          (UserException ''::Test::Error'') (Some 5) Idempotent False 0) =
     Inl (UserException ''::Test::Error'')"
proof -
  let ?r = "exampleResult\<lparr>wait := Inr False\<rparr>"
  have a: "wait ?r = Inr False" by simp
  have b: "throwUserException ?r = UserException ''::Test::Error''"
    by (simp add: exampleResult_def)
  have c: "check ?r this n = None" for this n
    by (simp add: exampleResult_def)
  show ?thesis
    using a b c mode_example
      user_exception_wrapped [OF a b, of 0 exampleHeap "''ice_ping''" exampleUpdate
        examplePolicy "Some 5" Idempotent False 0]
    by simp
qed

subsection \<open>Checked cast\<close>

lemma ice_facet_result:
  assumes "validProxy h b"
  shows "\<exists>h1 bb. ice_facet h b f = Inr (h1, bb) \<and> validProxy h1 bb \<and> ice_getFacet h1 bb = f"
proof (cases "f = getFacet (ref h b)")
  case True
  then show ?thesis
    using assms by (simp add: ice_facet_def ice_getFacet_def)
next
  case False
  let ?new = "(ref h b)\<lparr>getFacet := f\<rparr>"
  have "ice_facet h b f = Inr (derivedStore h ?new, length (proxies h))"
    using False
    by (simp add: ice_facet_def changeFacet_def ref_def newProxy_change_other)
  then show ?thesis
    using derived_store [of h ?new] by (simp add: ice_getFacet_def)
qed

text \<open>
  Claim C10, as amended. \<^verbatim>\<open>checkedCastImpl\<close> returns null for a null proxy and
  leaves the store as it is. For a usable proxy it derives a usable proxy \<open>bb\<close>
  whose facet is the requested one, asks \<^verbatim>\<open>ice_isA\<close> on it, and
  \<^item> returns \<open>bb\<close> when the answer is true;
  \<^item> returns null when the answer is false, except that in a build without
    \<^verbatim>\<open>NDEBUG\<close> a false answer for the type id \<^verbatim>\<open>::Ice::Object\<close> fails the
    assertion of the function;
  \<^item> returns null when \<^verbatim>\<open>ice_isA\<close> raises \<^verbatim>\<open>FacetNotExistException\<close>;
  \<^item> raises every other exception of \<^verbatim>\<open>ice_isA\<close> unchanged.
\<close>

theorem checkedCastImpl_cases:
  assumes "validProxy h b"
  shows
    "checkedCastImpl ndebug isA h None f typeId context = (h, Inr None) \<and>
     (\<exists>h1 bb. ice_facet h b f = Inr (h1, bb) \<and> validProxy h1 bb \<and> ice_getFacet h1 bb = f \<and>
        snd (checkedCastImpl ndebug isA h (Some b) f typeId context) =
          (case snd (isA h1 bb typeId context) of
             Inr True \<Rightarrow> Inr (Some bb)
           | Inr False \<Rightarrow>
               if \<not> ndebug \<and> typeId = ''::Ice::Object'' then Inl AssertionFailure
               else Inr None
           | Inl e \<Rightarrow> if e = Local FacetNotExistException then Inr None else Inl e))"
proof -
  obtain h1 bb where
    f: "ice_facet h b f = Inr (h1, bb)" "validProxy h1 bb" "ice_getFacet h1 bb = f"
    using ice_facet_result [OF assms] by blast
  have "snd (checkedCastImpl ndebug isA h (Some b) f typeId context) =
          (case snd (isA h1 bb typeId context) of
             Inr True \<Rightarrow> Inr (Some bb)
           | Inr False \<Rightarrow>
               if \<not> ndebug \<and> typeId = ''::Ice::Object'' then Inl AssertionFailure
               else Inr None
           | Inl e \<Rightarrow> if e = Local FacetNotExistException then Inr None else Inl e)"
    using f(1)
    by (cases "isA h1 bb typeId context")
       (auto simp add: checkedCastImpl_def split: sum.splits bool.splits)
  then show ?thesis
    using f by (auto simp add: checkedCastImpl_def)
qed

text \<open>
  Claim C10 as stated fails in a build without \<^verbatim>\<open>NDEBUG\<close>: when the object
  answers false to the type id \<^verbatim>\<open>::Ice::Object\<close>, the function does not return
  null but fails its assertion.
\<close>

theorem checkedCastImpl_cases_counterexample:
  "checkedCastImpl False (\<lambda>h p t c. (h, Inr False)) exampleHeap (Some 0) [] ''::Ice::Object'' [] =
     (exampleHeap, Inl AssertionFailure)"
  by (simp add: checkedCastImpl_def ice_facet_def ref_example exampleReference_def)

text \<open>
  The cases of the amended claim on the first proxy of the example store and the
  facet \<open>admin\<close>, for which the derived proxy is the new handle \<open>2\<close>.
\<close>

theorem checkedCastImpl_cases_witness:
  "validProxy exampleHeap 0 \<and>
   checkedCastImpl True (\<lambda>h p t c. (h, Inr True)) exampleHeap None ''admin'' ''::X'' [] =
     (exampleHeap, Inr None) \<and>
   snd (checkedCastImpl True (\<lambda>h p t c. (h, Inr True)) exampleHeap (Some 0) ''admin'' ''::X'' []) =
     Inr (Some 2) \<and>
   snd (checkedCastImpl True (\<lambda>h p t c. (h, Inr False)) exampleHeap (Some 0) ''admin'' ''::X'' []) =
     Inr None \<and>
   snd (checkedCastImpl False (\<lambda>h p t c. (h, Inr False)) exampleHeap (Some 0) ''admin'' ''::X'' []) =
     Inr None \<and>
   snd (checkedCastImpl True (\<lambda>h p t c. (h, Inl (Local FacetNotExistException)))
          exampleHeap (Some 0) ''admin'' ''::X'' []) = Inr None \<and>
   snd (checkedCastImpl True (\<lambda>h p t c. (h, Inl (Local ObjectNotExistException)))
          exampleHeap (Some 0) ''admin'' ''::X'' []) = Inl (Local ObjectNotExistException)"
proof -
  have v: "validProxy exampleHeap 0"
    using validProxy_example by simp
  have "getFacet (ref exampleHeap 0) \<noteq> ''admin''"
    by (simp add: ref_example exampleReference_def)
  moreover have "length (proxies exampleHeap) = 2"
    by (simp add: exampleHeap_def)
  ultimately have f: "ice_facet exampleHeap 0 ''admin'' =
      Inr (derivedStore exampleHeap ((ref exampleHeap 0)\<lparr>getFacet := ''admin''\<rparr>), 2)"
    by (simp add: ice_facet_def changeFacet_def ref_def newProxy_change_other)
  show ?thesis
    using v f
      checkedCastImpl_cases [OF v, of True "\<lambda>h p t c. (h, Inr True)" "''admin''" "''::X''" "[]"]
      checkedCastImpl_cases [OF v, of True "\<lambda>h p t c. (h, Inr False)" "''admin''" "''::X''" "[]"]
      checkedCastImpl_cases [OF v, of False "\<lambda>h p t c. (h, Inr False)" "''admin''" "''::X''" "[]"]
      checkedCastImpl_cases [OF v, of True "\<lambda>h p t c. (h, Inl (Local FacetNotExistException))"
        "''admin''" "''::X''" "[]"]
      checkedCastImpl_cases [OF v, of True "\<lambda>h p t c. (h, Inl (Local ObjectNotExistException))"
        "''admin''" "''::X''" "[]"]
    by simp
qed

end
